theory Spec2Isabelle
  imports Main "HOL-Library.Word"
begin

section \<open>Mechanism types\<close>

text \<open>
  The Go type \<^verbatim>\<open>MechanismType\<close> is a named string type; a value of it is any string,
  and the four constants are four particular strings.
\<close>

type_synonym MechanismType = string

definition BootstrapSequencer :: MechanismType where
  "BootstrapSequencer = ''bootstrap-sequencer''"

definition Sequencer :: MechanismType where
  "Sequencer = ''sequencer''"

definition Validator :: MechanismType where
  "Validator = ''validator''"

definition WatchTower :: MechanismType where
  "WatchTower = ''watchtower''"

text \<open>
  \<^verbatim>\<open>mechanismTypes\<close> is a Go map literal. Its entries are kept as a list (the
  \<^verbatim>\<open>range\<close> loop of \<^verbatim>\<open>MechanismExists\<close> walks them); the lookup is \<open>map_of\<close>.
\<close>

definition mechanismTypeEntries :: "(string \<times> MechanismType) list" where
  "mechanismTypeEntries =
     [(''bootstrap-sequencer'', BootstrapSequencer),
      (''sequencer'', Sequencer),
      (''validator'', Validator),
      (''watchtower'', WatchTower)]"

definition mechanismTypes :: "string \<rightharpoonup> MechanismType" where
  "mechanismTypes = map_of mechanismTypeEntries"

definition String :: "MechanismType \<Rightarrow> string" where
  "String t = t"

definition LogString :: "MechanismType \<Rightarrow> string" where
  "LogString t = map (\<lambda>c. if c = CHR ''-'' then CHR ''_'' else c) t"

text \<open>The loop returns true at the first entry whose value equals the argument.\<close>

fun mechanismIn :: "MechanismType \<Rightarrow> (string \<times> MechanismType) list \<Rightarrow> bool" where
  "mechanismIn mechanism [] = False"
| "mechanismIn mechanism ((k, m) # rest) =
     (if mechanism = m then True else mechanismIn mechanism rest)"

definition MechanismExists :: "MechanismType \<Rightarrow> bool" where
  "MechanismExists mechanism = mechanismIn mechanism mechanismTypeEntries"

text \<open>
  \<^verbatim>\<open>ParseType\<close> returns a pair (value, error). A missing key gives the zero value of the
  map's value type, the empty string, and the error built by \<^verbatim>\<open>fmt.Errorf\<close>; \<open>None\<close>
  is the nil error.
\<close>

definition ParseType :: "string \<Rightarrow> MechanismType \<times> string option" where
  "ParseType mechanism =
     (case mechanismTypes mechanism of
        None \<Rightarrow> ('''', Some (''invalid avail mechanism type '' @ mechanism))
      | Some castType \<Rightarrow> (castType, None))"

section \<open>The sequencer worker: data\<close>

text \<open>
  Addresses are byte strings (\<^verbatim>\<open>types.Address\<close>, compared through \<^verbatim>\<open>Bytes()\<close>); hashes,
  state roots and keys are opaque numbers. Unsigned 64-bit fields are natural numbers,
  with the reduction modulo \<open>2 ^ 64\<close> written out where the code computes with them.
\<close>

type_synonym address = "8 word list"
type_synonym hash = nat

text \<open>
  Go errors. The selector tells three kinds apart by their dynamic type, and the tick loop
  compares an extraction error with the sentinel \<^verbatim>\<open>block.ErrNoExtrinsicFound\<close>.
  The argument of \<open>TransitionApplicationError\<close> is its field \<^verbatim>\<open>IsRecoverable\<close>.
\<close>

datatype go_error =
    ErrNoExtrinsicFound
  | GasLimitReachedTransitionApplicationError
  | TransitionApplicationError bool
  | OtherError string

record transaction =
  tx_Hash :: hash
  tx_Gas :: nat

record header =
  ParentHash :: hash
  Number :: nat
  Miner :: "8 word list"
  Nonce :: nat
  GasLimit :: nat
  Timestamp :: nat
  StateRoot :: hash
  GasUsed :: nat
  ExtraData :: "8 word list"
  Hash :: hash

record block =
  Header :: header
  Transactions :: "transaction list"

text \<open>A block of the DA chain: its header number (an unsigned 32-bit value) and its payload.\<close>

record avail_block =
  avail_Number :: "32 word"
  avail_Extrinsics :: "nat list"

subsection \<open>What a run does: the calls it makes, in order\<close>

datatype severity = LvlDebug | LvlInfo | LvlWarn | LvlError

text \<open>
  One event per call on a collaborator and per log line. A call whose returned error the
  code looks at (or discards) carries that error, \<open>None\<close> for nil.
\<close>

datatype event =
    EvStore int
  | EvFromAvail avail_block
  | EvLog severity string
  | EvWriteBlock block "go_error option"
  | EvCheckAndSetFraudBlock "block list"
  | EvCheckAndSlash "go_error option"
  | EvContains address
  | EvGet
  | EvHeader
  | EvCalculateGasLimit nat "go_error option"
  | EvAssignExtraValidators "go_error option"
  | EvBeginTxn "go_error option"
  | EvPrepare
  | EvPeek "transaction option"
  | EvDrop transaction
  | EvDemote transaction
  | EvPop transaction
  | EvWrite transaction "go_error option"
  | EvCommit
  | EvWriteSeal "go_error option"
  | EvSendAndWaitForStatus block "go_error option"
  | EvResetWithHeaders header
  | EvUnStake "go_error option"

subsection \<open>The collaborators\<close>

text \<open>
  The worker's collaborators are objects of other packages. Each is a record of its
  methods; a method that changes its object takes the object's state and returns the new
  one. The transaction pool's state has type \<open>'p\<close>, an open transition's \<open>'ts\<close>; nothing is
  assumed about either.
\<close>

record 'p TxPool =
  Prepare :: "'p \<Rightarrow> 'p"
  Peek :: "'p \<Rightarrow> transaction option \<times> 'p"
  Pop :: "transaction \<Rightarrow> 'p \<Rightarrow> 'p"
  Drop :: "transaction \<Rightarrow> 'p \<Rightarrow> 'p"
  Demote :: "transaction \<Rightarrow> 'p \<Rightarrow> 'p"
  ResetWithHeaders :: "header \<Rightarrow> 'p \<Rightarrow> 'p"

record 'ts Transition =
  Write :: "transaction \<Rightarrow> 'ts \<Rightarrow> go_error option \<times> 'ts"
  Commit :: "'ts \<Rightarrow> hash \<times> 'ts"
  TotalGas :: "'ts \<Rightarrow> nat"
  Receipts :: "'ts \<Rightarrow> nat list"

record Blockchain =
  ChainHeader :: header
  WriteBlock :: "block \<Rightarrow> go_error option"
  CalculateGasLimit :: "nat \<Rightarrow> go_error + nat"

record 'ts Executor =
  BeginTxn :: "hash \<Rightarrow> header \<Rightarrow> address \<Rightarrow> go_error + 'ts"

record ActiveSequencersQuerier =
  Contains :: "address \<Rightarrow> go_error + bool"
  Get :: "go_error + address list"

text \<open>
  What \<^verbatim>\<open>CheckAndSlash\<close> returns may depend on the blocks handed to
  \<^verbatim>\<open>CheckAndSetFraudBlock\<close> just before.
\<close>

record FraudResolver =
  CheckAndSlash :: "block list \<Rightarrow> go_error option"

record Sender =
  SendAndWaitForStatus :: "block \<Rightarrow> go_error option"

text \<open>
  Functions of other packages: \<^verbatim>\<open>block.FromAvail\<close>, \<^verbatim>\<open>block.AssignExtraValidators\<close>,
  \<^verbatim>\<open>block.WriteSeal\<close>, \<^verbatim>\<open>consensus.BuildBlock\<close>, \<^verbatim>\<open>Header.ComputeHash\<close>, and the
  clock: \<open>Now k\<close> is what the \<open>k\<close>-th call of \<^verbatim>\<open>time.Now()\<close> in a production attempt
  returns, in nanoseconds since the Unix epoch.
\<close>

record Packages =
  FromAvail :: "avail_block \<Rightarrow> block list \<times> go_error option"
  AssignExtraValidators :: "header \<Rightarrow> address list \<Rightarrow> go_error + header"
  WriteSeal :: "nat \<Rightarrow> header \<Rightarrow> go_error + header"
  BuildBlock :: "header \<Rightarrow> transaction list \<Rightarrow> nat list \<Rightarrow> block"
  ComputeHash :: "header \<Rightarrow> header"
  Now :: "nat \<Rightarrow> int"

text \<open>
  The struct \<^verbatim>\<open>SequencerWorker\<close>, with the objects \<^verbatim>\<open>Run\<close> creates for it and the
  methods of the transitions its executor opens. \<open>blockTime\<close> is a \<^verbatim>\<open>time.Duration\<close>, a
  signed number of nanoseconds.
\<close>

record ('ts, 'p) SequencerWorker =
  blockchain :: Blockchain
  executor :: "'ts Executor"
  transitions :: "'ts Transition"
  txpool :: "'p TxPool"
  activeSequencersQuerier :: ActiveSequencersQuerier
  fraudResolver :: FraudResolver
  availSender :: Sender
  nodeAddr :: address
  nodeType :: MechanismType
  blockTime :: int
  pkg :: Packages

section \<open>The transaction selector\<close>

text \<open>
  Modelled from the spec: \<^verbatim>\<open>ExceedsBlockGasLimit\<close> is a method of the transaction type of
  another package; it says whether the transaction alone exceeds the limit it is given.
\<close>

definition ExceedsBlockGasLimit :: "transaction \<Rightarrow> nat \<Rightarrow> bool" where
  "ExceedsBlockGasLimit tx blockGasLimit = (tx_Gas tx > blockGasLimit)"

text \<open>
  The variables of the loop in \<^verbatim>\<open>writeTransactions\<close>: the slice \<^verbatim>\<open>successful\<close>, the
  open transition, the pool, and the calls made so far.
\<close>

record ('ts, 'p) selection =
  successful :: "transaction list"
  transition :: 'ts
  pool :: 'p
  events :: "event list"

datatype ('ts, 'p) loop_step =
    Break "('ts, 'p) selection"
  | Continue "('ts, 'p) selection"

text \<open>One pass through the body of the loop, ending in \<^verbatim>\<open>break\<close> or \<^verbatim>\<open>continue\<close>.\<close>

definition selectStep ::
  "'p TxPool \<Rightarrow> 'ts Transition \<Rightarrow> nat \<Rightarrow> ('ts, 'p) selection \<Rightarrow> ('ts, 'p) loop_step" where
  "selectStep txp tr gasLimit s =
     (case Peek txp (pool s) of
        (None, p1) \<Rightarrow> Break (s\<lparr>pool := p1, events := events s @ [EvPeek None]\<rparr>)
      | (Some tx, p1) \<Rightarrow>
          (let s1 = s\<lparr>pool := p1,
                      events := events s @
                        [EvPeek (Some tx), EvLog LvlDebug ''found transaction from txpool'']\<rparr>
           in if ExceedsBlockGasLimit tx gasLimit then
                Continue (s1\<lparr>pool := Drop txp tx p1, events := events s1 @ [EvDrop tx]\<rparr>)
              else
                (case Write tr tx (transition s1) of
                   (Some err, ts1) \<Rightarrow>
                     (let s2 = s1\<lparr>transition := ts1,
                                  events := events s1 @ [EvWrite tx (Some err)]\<rparr>
                      in if err = GasLimitReachedTransitionApplicationError then
                           Break (s2\<lparr>events := events s2 @
                             [EvLog LvlWarn ''transaction reached gas limit during excution'']\<rparr>)
                         else if err = TransitionApplicationError True then
                           Continue (s2\<lparr>pool := Demote txp tx p1,
                             events := events s2 @
                               [EvLog LvlWarn ''transaction caused application error'',
                                EvDemote tx]\<rparr>)
                         else
                           Continue (s2\<lparr>pool := Drop txp tx p1,
                             events := events s2 @
                               [EvLog LvlError ''transaction caused unknown error'',
                                EvDrop tx]\<rparr>))
                 | (None, ts1) \<Rightarrow>
                     Continue (s1\<lparr>successful := successful s1 @ [tx],
                                 transition := ts1,
                                 pool := Pop txp tx p1,
                                 events := events s1 @ [EvWrite tx None, EvPop tx]\<rparr>))))"

text \<open>
  The loop has no bound of its own: whether it ends depends on the pool. \<open>None\<close> is the
  run that never leaves the loop.
\<close>

partial_function (option) selectLoop ::
  "'p TxPool \<Rightarrow> 'ts Transition \<Rightarrow> nat \<Rightarrow> ('ts, 'p) selection \<Rightarrow> ('ts, 'p) selection option" where
  "selectLoop txp tr gasLimit s =
     (case selectStep txp tr gasLimit s of
        Break s' \<Rightarrow> Some s'
      | Continue s' \<Rightarrow> selectLoop txp tr gasLimit s')"

declare selectLoop.simps [code]

definition writeTransactions ::
  "'p TxPool \<Rightarrow> 'ts Transition \<Rightarrow> nat \<Rightarrow> 'ts \<Rightarrow> 'p \<Rightarrow> ('ts, 'p) selection option" where
  "writeTransactions txp tr gasLimit ts p =
     selectLoop txp tr gasLimit
       \<lparr>successful = [], transition = ts, pool = Prepare txp p, events = [EvPrepare]\<rparr>"

section \<open>Block production\<close>

text \<open>
  Conversions between \<^verbatim>\<open>uint64\<close> and \<^verbatim>\<open>int64\<close> keep the 64 bits; \<open>wrap64\<close> is what a
  signed 64-bit addition or subtraction leaves of the exact result.
\<close>

definition int64 :: "nat \<Rightarrow> int" where
  "int64 x = (let y = int (x mod 2 ^ 64) in if y < 2 ^ 63 then y else y - 2 ^ 64)"

definition uint64 :: "int \<Rightarrow> nat" where
  "uint64 i = nat (i mod 2 ^ 64)"

definition wrap64 :: "int \<Rightarrow> int" where
  "wrap64 i = (i + 2 ^ 63) mod 2 ^ 64 - 2 ^ 63"

definition second :: int where
  "second = 1000000000"

text \<open>Go's \<^verbatim>\<open>/\<close> and \<^verbatim>\<open>%\<close> on integers round towards zero.\<close>

definition truncDiv :: "int \<Rightarrow> int \<Rightarrow> int" where
  "truncDiv a b = sgn a * sgn b * (\<bar>a\<bar> div \<bar>b\<bar>)"

definition truncRem :: "int \<Rightarrow> int \<Rightarrow> int" where
  "truncRem a b = a - b * truncDiv a b"

text \<open>
  The \<^verbatim>\<open>time\<close> package of the Go library, for instants without a monotonic reading: a
  \<^verbatim>\<open>Time\<close> holds a signed 64-bit count of seconds since 1 January of year 1 and the
  nanoseconds within the second. \<^verbatim>\<open>time.Unix(sec, 0)\<close> adds the offset between year 1 and
  1970 with wrap-around; \<^verbatim>\<open>Add\<close> splits the duration into seconds and nanoseconds and
  adds the seconds with saturation; \<^verbatim>\<open>Before\<close> compares seconds, then nanoseconds;
  \<^verbatim>\<open>Unix()\<close> subtracts the offset again.
\<close>

record go_time =
  t_sec :: int
  t_nsec :: int

definition unixToInternal :: int where
  "unixToInternal = 62135596800"

definition timeUnix :: "int \<Rightarrow> go_time" where
  "timeUnix s = \<lparr>t_sec = wrap64 (s + unixToInternal), t_nsec = 0\<rparr>"

definition addSec :: "int \<Rightarrow> int \<Rightarrow> int" where
  "addSec ext d =
     (let sum = wrap64 (ext + d)
      in if (sum > ext) = (d > 0) then sum
         else if d > 0 then 2 ^ 63 - 1
         else - (2 ^ 63 - 1))"

definition timeAdd :: "go_time \<Rightarrow> int \<Rightarrow> go_time" where
  "timeAdd t d =
     (let dsec = truncDiv d second;
          n = t_nsec t + truncRem d second
      in if n \<ge> second then \<lparr>t_sec = addSec (t_sec t) (dsec + 1), t_nsec = n - second\<rparr>
         else if n < 0 then \<lparr>t_sec = addSec (t_sec t) (dsec - 1), t_nsec = n + second\<rparr>
         else \<lparr>t_sec = addSec (t_sec t) dsec, t_nsec = n\<rparr>)"

definition timeBefore :: "go_time \<Rightarrow> go_time \<Rightarrow> bool" where
  "timeBefore t u = (t_sec t < t_sec u \<or> (t_sec t = t_sec u \<and> t_nsec t < t_nsec u))"

definition timeUnixSec :: "go_time \<Rightarrow> int" where
  "timeUnixSec t = wrap64 (t_sec t - unixToInternal)"

text \<open>
  What \<^verbatim>\<open>time.Now()\<close> returns when the clock stands \<open>n\<close> nanoseconds after the Unix
  epoch, as \<^verbatim>\<open>Before\<close> and \<^verbatim>\<open>Unix()\<close> see it.
\<close>

definition timeNow :: "int \<Rightarrow> go_time" where
  "timeNow n = \<lparr>t_sec = wrap64 (n div second + unixToInternal), t_nsec = n mod second\<rparr>"

text \<open>
  The timestamp of the new header: \<open>now1\<close> is the clock read in the comparison, \<open>now2\<close> the
  clock read in the assignment that follows it; \<open>minInterval\<close> is the field
  \<^verbatim>\<open>blockTime\<close>, a duration in nanoseconds.
\<close>

definition headerTimestamp :: "int \<Rightarrow> nat \<Rightarrow> int \<Rightarrow> int \<Rightarrow> nat" where
  "headerTimestamp minInterval parentTimestamp now1 now2 =
     (let parentTime = timeUnix (int64 parentTimestamp);
          headerTime = timeAdd parentTime minInterval;
          headerTime' = (if timeBefore headerTime (timeNow now1) then timeNow now2 else headerTime)
      in uint64 (timeUnixSec headerTime'))"

text \<open>The header literal at the head of \<^verbatim>\<open>writeBlock\<close>; fields it leaves out are zero.\<close>

definition newHeader :: "('ts, 'p) SequencerWorker \<Rightarrow> address \<Rightarrow> header \<Rightarrow> header" where
  "newHeader sw myAccount parent =
     \<lparr>ParentHash = Hash parent,
      Number = (Number parent + 1) mod 2 ^ 64,
      Miner = myAccount,
      Nonce = 0,
      GasLimit = GasLimit parent,
      Timestamp = uint64 (timeUnixSec (timeNow (Now (pkg sw) 0))),
      StateRoot = 0,
      GasUsed = 0,
      ExtraData = [],
      Hash = 0\<rparr>"

text \<open>
  What a call of \<^verbatim>\<open>writeBlock\<close> does: it returns an error (or nil) and leaves the pool
  in a new state, or it never returns because the selector's loop never ends.
\<close>

datatype 'p produced =
    Returned "go_error option" 'p
  | NeverReturns

text \<open>
  The second half of \<^verbatim>\<open>writeBlock\<close>, from \<^verbatim>\<open>transition.Commit()\<close> on: \<open>sel\<close> is
  the selector's result, \<open>header\<close> the header the transition was opened with.
\<close>

definition sealAndPublish ::
  "('ts, 'p) SequencerWorker \<Rightarrow> nat \<Rightarrow> header \<Rightarrow> ('ts, 'p) selection \<Rightarrow>
     'p produced \<times> event list" where
  "sealAndPublish sw signKey header sel =
     (let (root, ts) = Commit (transitions sw) (transition sel);
          header1 = header\<lparr>StateRoot := root, GasUsed := TotalGas (transitions sw) ts\<rparr>;
          blk = BuildBlock (pkg sw) header1 (successful sel) (Receipts (transitions sw) ts)
      in case WriteSeal (pkg sw) signKey (Header blk) of
           Inl err \<Rightarrow> (Returned (Some err) (pool sel), [EvCommit, EvWriteSeal (Some err)])
         | Inr header2 \<Rightarrow>
             (let blk1 = blk\<lparr>Header := ComputeHash (pkg sw) header2\<rparr>;
                  evs = [EvCommit, EvWriteSeal None, EvLog LvlInfo ''sending block to avail'']
              in case SendAndWaitForStatus (availSender sw) blk1 of
                   Some err \<Rightarrow>
                     (Returned (Some err) (pool sel),
                      evs @ [EvSendAndWaitForStatus blk1 (Some err),
                             EvLog LvlError ''Error while submitting data to avail''])
                 | None \<Rightarrow>
                     (let evs1 = evs @ [EvSendAndWaitForStatus blk1 None,
                                        EvLog LvlInfo ''sent block to avail'',
                                        EvLog LvlInfo ''writing block to blockchain'']
                      in case WriteBlock (blockchain sw) blk1 of
                           Some err \<Rightarrow>
                             (Returned (Some err) (pool sel), evs1 @ [EvWriteBlock blk1 (Some err)])
                         | None \<Rightarrow>
                             (Returned None (ResetWithHeaders (txpool sw) (Header blk1) (pool sel)),
                              evs1 @ [EvWriteBlock blk1 None,
                                      EvLog LvlInfo ''Successfully wrote block to blockchain'',
                                      EvResetWithHeaders (Header blk1)]))))"

definition writeBlock ::
  "('ts, 'p) SequencerWorker \<Rightarrow> 'p \<Rightarrow> address \<Rightarrow> nat \<Rightarrow> header \<Rightarrow> 'p produced \<times> event list" where
  "writeBlock sw p myAccount signKey parent =
     (let header = newHeader sw myAccount parent
      in case CalculateGasLimit (blockchain sw) (Number header) of
           Inl err \<Rightarrow> (Returned (Some err) p, [EvCalculateGasLimit (Number header) (Some err)])
         | Inr gasLimit \<Rightarrow>
             (let header1 = header\<lparr>GasLimit := gasLimit,
                                   Timestamp := headerTimestamp (blockTime sw) (Timestamp parent)
                                     (Now (pkg sw) 1) (Now (pkg sw) 2)\<rparr>;
                  evs = [EvCalculateGasLimit (Number header) None]
              in case AssignExtraValidators (pkg sw) header1 [myAccount] of
                   Inl err \<Rightarrow> (Returned (Some err) p, evs @ [EvAssignExtraValidators (Some err)])
                 | Inr header2 \<Rightarrow>
                     (case BeginTxn (executor sw) (StateRoot parent) header2 myAccount of
                        Inl err \<Rightarrow>
                          (Returned (Some err) p,
                           evs @ [EvAssignExtraValidators None, EvBeginTxn (Some err)])
                      | Inr ts \<Rightarrow>
                          (let evs1 = evs @ [EvAssignExtraValidators None, EvBeginTxn None]
                           in case writeTransactions (txpool sw) (transitions sw) gasLimit ts p of
                                None \<Rightarrow> (NeverReturns, evs1)
                              | Some sel \<Rightarrow>
                                  (let (r, evs2) = sealAndPublish sw signKey header2 sel
                                   in (r, evs1 @ events sel @ evs2))))))"

section \<open>The tick loop\<close>

text \<open>
  The state \<^verbatim>\<open>Run\<close> carries from one tick to the next: the clock \<^verbatim>\<open>t\<close> (an atomic
  \<^verbatim>\<open>int64\<close>) and the pool.
\<close>

record 'p worker =
  DATick :: int
  poolState :: 'p

text \<open>
  How a tick ends: the loop goes on to its next iteration, the process panics, or the tick
  never ends because block production never returns. The last two carry the clock value
  at that point.
\<close>

datatype 'p tick_outcome =
    NextTick "'p worker"
  | Panicked int string
  | Hung int

text \<open>The staked check, the leader check and block production: the end of the loop body.\<close>

definition leaderTurn ::
  "('ts, 'p) SequencerWorker \<Rightarrow> address \<Rightarrow> nat \<Rightarrow> 'p worker \<Rightarrow> 'p tick_outcome \<times> event list" where
  "leaderTurn sw account key w =
     (case Contains (activeSequencersQuerier sw) (nodeAddr sw) of
        Inl sequencerError \<Rightarrow>
          (NextTick w,
           [EvContains (nodeAddr sw),
            EvLog LvlError
              ''failed to check if my account is among active staked sequencers; cannot continue''])
      | Inr sequencerStaked \<Rightarrow>
          if \<not> sequencerStaked then
            (NextTick w,
             [EvContains (nodeAddr sw),
              EvLog LvlError ''my account is not among active staked sequencers; cannot continue''])
          else
            (case Get (activeSequencersQuerier sw) of
               Inl err \<Rightarrow>
                 (NextTick w,
                  [EvContains (nodeAddr sw), EvGet,
                   EvLog LvlError ''querying staked sequencers failed; quitting''])
             | Inr sequencers \<Rightarrow>
                 if length sequencers = 0 then
                   (Panicked (DATick w) ''no staked sequencers'', [EvContains (nodeAddr sw), EvGet])
                 else if sequencers ! 0 = nodeAddr sw then
                   (let evs = [EvContains (nodeAddr sw), EvGet, EvHeader,
                               EvLog LvlInfo ''it's my turn; producing a block'']
                    in case writeBlock sw (poolState w) account key (ChainHeader (blockchain sw)) of
                         (NeverReturns, evs1) \<Rightarrow> (Hung (DATick w), evs @ evs1)
                       | (Returned None p, evs1) \<Rightarrow> (NextTick (w\<lparr>poolState := p\<rparr>), evs @ evs1)
                       | (Returned (Some err) p, evs1) \<Rightarrow>
                           (NextTick (w\<lparr>poolState := p\<rparr>),
                            evs @ evs1 @ [EvLog LvlError ''failed to mine block'']))
                 else
                   (NextTick w,
                    [EvContains (nodeAddr sw), EvGet,
                     EvLog LvlInfo ''it's not my turn; skippin' a round''])))"

text \<open>
  The loop body after extraction: the extracted blocks are written, the fraud resolver
  runs, and unless \<^verbatim>\<open>CheckAndSlash\<close> fails the leader logic follows.
\<close>

definition restOfTick ::
  "('ts, 'p) SequencerWorker \<Rightarrow> address \<Rightarrow> nat \<Rightarrow> 'p worker \<Rightarrow> block list \<Rightarrow>
     'p tick_outcome \<times> event list" where
  "restOfTick sw account key w edgeBlks =
     (let evs = map (\<lambda>blockk. EvWriteBlock blockk (WriteBlock (blockchain sw) blockk)) edgeBlks
                @ [EvCheckAndSetFraudBlock edgeBlks,
                   EvCheckAndSlash (CheckAndSlash (fraudResolver sw) edgeBlks)]
      in case CheckAndSlash (fraudResolver sw) edgeBlks of
           Some err \<Rightarrow> (NextTick w, evs)
         | None \<Rightarrow> (let (r, evs1) = leaderTurn sw account key w in (r, evs @ evs1)))"

text \<open>The loop body for one block of the stream.\<close>

definition tick ::
  "('ts, 'p) SequencerWorker \<Rightarrow> address \<Rightarrow> nat \<Rightarrow> 'p worker \<Rightarrow> avail_block \<Rightarrow>
     'p tick_outcome \<times> event list" where
  "tick sw account key w blk =
     (let w1 = w\<lparr>DATick := uint (avail_Number blk)\<rparr>;
          evs = [EvStore (uint (avail_Number blk)), EvFromAvail blk];
          (edgeBlks, err) = FromAvail (pkg sw) blk
      in if length edgeBlks = 0 \<and> err \<noteq> None then
           (let evs1 = evs @ [EvLog LvlError ''cannot extract Edge block from Avail block'']
            in if err \<noteq> Some ErrNoExtrinsicFound then (NextTick w1, evs1)
               else (let (r, evs2) = restOfTick sw account key w1 edgeBlks in (r, evs1 @ evs2)))
         else (let (r, evs2) = restOfTick sw account key w1 edgeBlks in (r, evs @ evs2)))"

text \<open>
  The \<^verbatim>\<open>select\<close> of \<^verbatim>\<open>Run\<close> has two cases. A run is driven by the cases that fire, in
  order: a block from the stream, with the collaborators as they behave during that tick,
  or the close signal, with what \<^verbatim>\<open>UnStake\<close> returns.
\<close>

datatype ('ts, 'p) select_case =
    StreamBlock avail_block "('ts, 'p) SequencerWorker"
  | CloseCh "go_error option"

datatype 'p run_result =
    Waiting "'p worker"
  | RunReturned "go_error option" "'p worker"
  | RunPanicked int string
  | RunHung int

fun runLoop ::
  "address \<Rightarrow> nat \<Rightarrow> 'p worker \<Rightarrow> ('ts, 'p) select_case list \<Rightarrow> 'p run_result \<times> event list" where
  "runLoop account key w [] = (Waiting w, [])"
| "runLoop account key w (CloseCh unstaked # rest) =
     (case unstaked of
        Some err \<Rightarrow>
          (RunReturned (Some err) w, [EvUnStake (Some err), EvLog LvlError ''failed to unstake the node''])
      | None \<Rightarrow> (RunReturned None w, [EvUnStake None]))"
| "runLoop account key w (StreamBlock blk sw # rest) =
     (case tick sw account key w blk of
        (NextTick w', evs) \<Rightarrow> (let (r, evs1) = runLoop account key w' rest in (r, evs @ evs1))
      | (Panicked t msg, evs) \<Rightarrow> (RunPanicked t msg, evs)
      | (Hung t, evs) \<Rightarrow> (RunHung t, evs))"

section \<open>Concrete collaborators\<close>

text \<open>
  Modelled from the spec: a pool whose pending transactions are a list in priority order.
  \<^verbatim>\<open>Peek\<close> returns the first transaction without removing it, \<^verbatim>\<open>Pop\<close> and \<^verbatim>\<open>Drop\<close>
  remove the transaction, \<^verbatim>\<open>Demote\<close> moves it to the back.
\<close>

definition listPool :: "transaction list TxPool" where
  "listPool =
     \<lparr>Prepare = (\<lambda>p. p),
      Peek = (\<lambda>p. (case p of [] \<Rightarrow> None | tx # rest \<Rightarrow> Some tx, p)),
      Pop = remove1,
      Drop = remove1,
      Demote = (\<lambda>tx p. remove1 tx p @ [tx]),
      ResetWithHeaders = (\<lambda>h p. p)\<rparr>"

text \<open>
  Modelled from the spec: a transition that meters gas. Its state is the block gas limit
  and the gas used so far; \<^verbatim>\<open>Write\<close> fails with gas-limit-reached when the transaction
  does not fit in what is left of the block, and otherwise uses the transaction's gas.
\<close>

definition gasMeter :: "(nat \<times> nat) Transition" where
  "gasMeter =
     \<lparr>Write = (\<lambda>tx (limit, used).
        if used + tx_Gas tx > limit
        then (Some GasLimitReachedTransitionApplicationError, (limit, used))
        else (None, (limit, used + tx_Gas tx))),
      Commit = (\<lambda>ts. (0, ts)),
      TotalGas = snd,
      Receipts = (\<lambda>ts. [])\<rparr>"

text \<open>A transition whose \<^verbatim>\<open>Write\<close> answers from a table indexed by transaction hash.\<close>

definition scripted :: "(hash \<Rightarrow> go_error option) \<Rightarrow> unit Transition" where
  "scripted answer =
     \<lparr>Write = (\<lambda>tx ts. (answer (tx_Hash tx), ts)),
      Commit = (\<lambda>ts. (0, ts)),
      TotalGas = (\<lambda>ts. 0),
      Receipts = (\<lambda>ts. [])\<rparr>"

definition mkTx :: "hash \<Rightarrow> nat \<Rightarrow> transaction" where
  "mkTx h g = \<lparr>tx_Hash = h, tx_Gas = g\<rparr>"

definition genesis :: header where
  "genesis =
     \<lparr>ParentHash = 0, Number = 0, Miner = [], Nonce = 0, GasLimit = 100, Timestamp = 100,
      StateRoot = 0, GasUsed = 0, ExtraData = [], Hash = 1000\<rparr>"

text \<open>
  A worker whose collaborators all succeed: node \<open>[1]\<close> is staked and first in the active
  set, the DA block carries no payload, the clock stands at second 200.
\<close>

definition exampleWorker :: "(nat \<times> nat, transaction list) SequencerWorker" where
  "exampleWorker =
     \<lparr>blockchain =
        \<lparr>ChainHeader = genesis, WriteBlock = (\<lambda>b. None), CalculateGasLimit = (\<lambda>n. Inr 100)\<rparr>,
      executor = \<lparr>BeginTxn = (\<lambda>root h coinbase. Inr (GasLimit h, 0))\<rparr>,
      transitions = gasMeter,
      txpool = listPool,
      activeSequencersQuerier = \<lparr>Contains = (\<lambda>a. Inr True), Get = Inr [[1], [2]]\<rparr>,
      fraudResolver = \<lparr>CheckAndSlash = (\<lambda>blks. None)\<rparr>,
      availSender = \<lparr>SendAndWaitForStatus = (\<lambda>b. None)\<rparr>,
      nodeAddr = [1],
      nodeType = Sequencer,
      blockTime = 2 * second,
      pkg =
        \<lparr>FromAvail = (\<lambda>b. ([], Some ErrNoExtrinsicFound)),
         AssignExtraValidators = (\<lambda>h validators. Inr (h\<lparr>ExtraData := concat validators\<rparr>)),
         WriteSeal = (\<lambda>k h. Inr h),
         BuildBlock = (\<lambda>h txns receipts. \<lparr>Header = h, Transactions = txns\<rparr>),
         ComputeHash = (\<lambda>h. h\<lparr>Hash := 1000 + Number h\<rparr>),
         Now = (\<lambda>k. 200 * second)\<rparr>\<rparr>"

definition exampleBlock :: avail_block where
  "exampleBlock = \<lparr>avail_Number = 7, avail_Extrinsics = []\<rparr>"

definition exampleState :: "transaction list worker" where
  "exampleState = \<lparr>DATick = 0, poolState = []\<rparr>"

text \<open>A settlement block as another sequencer would have published it.\<close>

definition settledBlock :: "nat \<Rightarrow> block" where
  "settledBlock n = \<lparr>Header = genesis\<lparr>Number := n, Hash := 1000 + n\<rparr>, Transactions = []\<rparr>"

section \<open>Predicates on event sequences\<close>

text \<open>The calls and log lines the selector can make.\<close>

fun isSelectorEvent :: "event \<Rightarrow> bool" where
  "isSelectorEvent EvPrepare = True"
| "isSelectorEvent (EvPeek t) = True"
| "isSelectorEvent (EvDrop t) = True"
| "isSelectorEvent (EvDemote t) = True"
| "isSelectorEvent (EvPop t) = True"
| "isSelectorEvent (EvWrite t r) = True"
| "isSelectorEvent (EvLog l m) = True"
| "isSelectorEvent e = False"

text \<open>
  A local commit is a call of the chain storage's \<^verbatim>\<open>WriteBlock\<close> or of the pool's
  \<^verbatim>\<open>ResetWithHeaders\<close>. The block is included once \<^verbatim>\<open>SendAndWaitForStatus\<close> has
  returned nil.
\<close>

fun isLocalCommit :: "event \<Rightarrow> bool" where
  "isLocalCommit (EvWriteBlock b r) = True"
| "isLocalCommit (EvResetWithHeaders h) = True"
| "isLocalCommit e = False"

fun isIncluded :: "event \<Rightarrow> bool" where
  "isIncluded (EvSendAndWaitForStatus b None) = True"
| "isIncluded e = False"

text \<open>
  The failures before inclusion: of the gas-limit calculation, of the extra-data
  assignment, of \<^verbatim>\<open>BeginTxn\<close>, of sealing.
\<close>

fun isFailureBeforeInclusion :: "event \<Rightarrow> bool" where
  "isFailureBeforeInclusion (EvCalculateGasLimit n (Some err)) = True"
| "isFailureBeforeInclusion (EvAssignExtraValidators (Some err)) = True"
| "isFailureBeforeInclusion (EvBeginTxn (Some err)) = True"
| "isFailureBeforeInclusion (EvWriteSeal (Some err)) = True"
| "isFailureBeforeInclusion e = False"

text \<open>The error a failure before inclusion carries.\<close>

fun failureOf :: "event \<Rightarrow> go_error option" where
  "failureOf (EvCalculateGasLimit n r) = r"
| "failureOf (EvAssignExtraValidators r) = r"
| "failureOf (EvBeginTxn r) = r"
| "failureOf (EvWriteSeal r) = r"
| "failureOf e = None"

text \<open>
  No local commit at all, or a successful wait for inclusion among the events before the
  first local commit.
\<close>

definition commitOnlyAfterInclusion :: "event list \<Rightarrow> bool" where
  "commitOnlyAfterInclusion evs =
     (filter isLocalCommit evs = [] \<or>
      list_ex isIncluded (takeWhile (\<lambda>e. \<not> isLocalCommit e) evs))"

text \<open>The state a pass through the loop body leaves, whichever way it ends.\<close>

definition stepState :: "('ts, 'p) loop_step \<Rightarrow> ('ts, 'p) selection" where
  "stepState st = (case st of Break s \<Rightarrow> s | Continue s \<Rightarrow> s)"

text \<open>The staked-status query: the first step of the leader logic.\<close>

fun isContains :: "event \<Rightarrow> bool" where
  "isContains (EvContains a) = True"
| "isContains e = False"

text \<open>The clock value the worker holds when a tick has ended.\<close>

fun recordedTick :: "'p tick_outcome \<Rightarrow> int" where
  "recordedTick (NextTick w) = DATick w"
| "recordedTick (Panicked t msg) = t"
| "recordedTick (Hung t) = t"

text \<open>The numbers of the stream blocks among the cases of a run.\<close>

fun blockNumbers :: "('ts, 'p) select_case list \<Rightarrow> 32 word list" where
  "blockNumbers [] = []"
| "blockNumbers (StreamBlock blk sw # rest) = avail_Number blk # blockNumbers rest"
| "blockNumbers (CloseCh unstaked # rest) = blockNumbers rest"

section \<open>Properties of the mechanism types\<close>

lemma MechanismExists_iff:
  "MechanismExists m \<longleftrightarrow>
     m \<in> {''bootstrap-sequencer'', ''sequencer'', ''validator'', ''watchtower''}"
  by (auto simp: MechanismExists_def mechanismTypeEntries_def BootstrapSequencer_def
      Sequencer_def Validator_def WatchTower_def)

lemma mechanismTypes_Some:
  "s \<in> {''bootstrap-sequencer'', ''sequencer'', ''validator'', ''watchtower''}
     \<Longrightarrow> mechanismTypes s = Some s"
  by (auto simp: mechanismTypes_def mechanismTypeEntries_def BootstrapSequencer_def
      Sequencer_def Validator_def WatchTower_def)

lemma mechanismTypes_None:
  "s \<notin> {''bootstrap-sequencer'', ''sequencer'', ''validator'', ''watchtower''}
     \<Longrightarrow> mechanismTypes s = None"
  by (simp add: mechanismTypes_def mechanismTypeEntries_def)

text \<open>
  Claim C10. \<^verbatim>\<open>ParseType\<close> succeeds (nil error) exactly on the four strings
  "bootstrap-sequencer", "sequencer", "validator" and "watchtower"; on the string of every
  mechanism type that exists it returns that type and a nil error; on every other string it
  returns the zero value (the empty string) and a non-nil error.
\<close>

theorem ParseType_left_inverse_of_String:
  "(snd (ParseType s) = None \<longleftrightarrow>
      s \<in> {''bootstrap-sequencer'', ''sequencer'', ''validator'', ''watchtower''})
   \<and> (MechanismExists m \<longrightarrow> ParseType (String m) = (m, None))
   \<and> (s \<notin> {''bootstrap-sequencer'', ''sequencer'', ''validator'', ''watchtower''} \<longrightarrow>
        fst (ParseType s) = '''' \<and> snd (ParseType s) \<noteq> None)"
proof -
  let ?four = "{''bootstrap-sequencer'', ''sequencer'', ''validator'', ''watchtower''}"
  have succeeds: "snd (ParseType s) = None \<longleftrightarrow> s \<in> ?four"
  proof (cases "s \<in> ?four")
    case True
    then have "mechanismTypes s = Some s" by (rule mechanismTypes_Some)
    with True show ?thesis by (simp add: ParseType_def)
  next
    case False
    then have "mechanismTypes s = None" by (rule mechanismTypes_None)
    with False show ?thesis by (simp add: ParseType_def)
  qed
  have inverse: "ParseType (String m) = (m, None)" if "MechanismExists m"
  proof -
    from that have "mechanismTypes m = Some m"
      by (simp only: MechanismExists_iff mechanismTypes_Some)
    then show ?thesis by (simp add: ParseType_def String_def)
  qed
  have fails: "fst (ParseType s) = '''' \<and> snd (ParseType s) \<noteq> None" if "s \<notin> ?four"
  proof -
    from that have "mechanismTypes s = None" by (rule mechanismTypes_None)
    then show ?thesis by (simp add: ParseType_def)
  qed
  from succeeds inverse fails show ?thesis by blast
qed

theorem ParseType_left_inverse_of_String_witness:
  "MechanismExists ''validator''
   \<and> ParseType (String ''validator'') = (''validator'', None)
   \<and> ''miner'' \<notin> {''bootstrap-sequencer'', ''sequencer'', ''validator'', ''watchtower''}
   \<and> fst (ParseType ''miner'') = '''' \<and> snd (ParseType ''miner'') \<noteq> None"
  using ParseType_left_inverse_of_String [of "''miner''" "''validator''"]
  by (simp add: MechanismExists_iff)

section \<open>The selector's events\<close>

lemma selectStep_events:
  "\<exists>new. events (stepState (selectStep txp tr gasLimit s)) = events s @ new \<and> list_all isSelectorEvent new"
  by (auto simp: selectStep_def stepState_def Let_def split: prod.splits option.splits)

lemma selectLoop_events:
  assumes "selectLoop txp tr gasLimit s = Some s'"
  shows "\<exists>new. events s' = events s @ new \<and> list_all isSelectorEvent new"
proof (rule selectLoop.raw_induct
    [where P = "\<lambda>txp tr gasLimit s s'.
       \<exists>new. events s' = events s @ new \<and> list_all isSelectorEvent new", OF _ assms])
  fix f txp tr gasLimit s y
  assume IH: "\<And>txp tr gasLimit s y. f txp tr gasLimit s = Some y \<Longrightarrow>
      \<exists>new. events y = events s @ new \<and> list_all isSelectorEvent new"
    and step: "(case selectStep txp tr gasLimit s of
                  Break s' \<Rightarrow> Some s'
                | Continue s' \<Rightarrow> f txp tr gasLimit s') = Some y"
  obtain new where new: "events (stepState (selectStep txp tr gasLimit s)) = events s @ new"
    "list_all isSelectorEvent new"
    using selectStep_events by blast
  show "\<exists>new. events y = events s @ new \<and> list_all isSelectorEvent new"
  proof (cases "selectStep txp tr gasLimit s")
    case (Break s1)
    with step new show ?thesis
      by (intro exI[of _ new]) (simp add: stepState_def)
  next
    case (Continue s1)
    with step have "f txp tr gasLimit s1 = Some y" by simp
    from IH[OF this] obtain new1 where "events y = events s1 @ new1" "list_all isSelectorEvent new1"
      by blast
    with new Continue show ?thesis
      by (intro exI[of _ "new @ new1"]) (simp add: stepState_def)
  qed
qed

lemma writeTransactions_events:
  assumes "writeTransactions txp tr gasLimit ts p = Some sel"
  shows "list_all isSelectorEvent (events sel)"
  using selectLoop_events[OF assms[unfolded writeTransactions_def]] by auto

lemma selector_event_not_commit: "isSelectorEvent e \<Longrightarrow> \<not> isLocalCommit e"
  by (cases e) simp_all

lemma selector_event_not_failure: "isSelectorEvent e \<Longrightarrow> \<not> isFailureBeforeInclusion e"
  by (cases e) simp_all

lemma selector_events_no_commit:
  "list_all isSelectorEvent evs \<Longrightarrow> filter isLocalCommit evs = []"
  by (induction evs) (auto dest: selector_event_not_commit)

lemma selector_events_no_failure:
  "list_all isSelectorEvent evs \<Longrightarrow> \<not> list_ex isFailureBeforeInclusion evs"
  by (induction evs) (auto dest: selector_event_not_failure)

lemma commitOnlyAfterInclusion_append:
  assumes "filter isLocalCommit xs = []" and "commitOnlyAfterInclusion ys"
  shows "commitOnlyAfterInclusion (xs @ ys)"
proof -
  from assms(1) have none: "\<forall>x\<in>set xs. \<not> isLocalCommit x"
    by (simp add: filter_empty_conv)
  then have "takeWhile (\<lambda>e. \<not> isLocalCommit e) (xs @ ys) =
               xs @ takeWhile (\<lambda>e. \<not> isLocalCommit e) ys"
    by (simp add: takeWhile_append2)
  with assms show ?thesis
    by (auto simp: commitOnlyAfterInclusion_def)
qed

lemma sealAndPublish_commit:
  "commitOnlyAfterInclusion (snd (sealAndPublish sw signKey header sel))"
  by (simp add: sealAndPublish_def commitOnlyAfterInclusion_def Let_def
      split: prod.splits sum.splits option.splits)

lemma sealAndPublish_failure:
  assumes "sealAndPublish sw signKey header sel = (r, evs)"
    and "list_ex isFailureBeforeInclusion evs"
  shows "(\<exists>err. r = Returned (Some err) (pool sel) \<and> failureOf (last evs) = Some err)
         \<and> filter isLocalCommit evs = []"
  using assms
  by (auto simp: sealAndPublish_def Let_def split: prod.splits sum.splits option.splits)

lemma sealAndPublish_nonempty:
  "snd (sealAndPublish sw signKey header sel) \<noteq> []"
  by (simp add: sealAndPublish_def Let_def split: prod.splits sum.splits option.splits)

lemma sealAndPublish_same_block:
  assumes "EvWriteBlock b res \<in> set (snd (sealAndPublish sw signKey header sel))"
  shows "EvSendAndWaitForStatus b None \<in> set (snd (sealAndPublish sw signKey header sel))"
  using assms
  by (auto simp: sealAndPublish_def Let_def split: prod.splits sum.splits option.splits)

lemma selector_events_no_write_block:
  "list_all isSelectorEvent evs \<Longrightarrow> EvWriteBlock b res \<notin> set evs"
  by (induction evs) auto

lemma writeBlock_order:
  assumes "writeBlock sw p myAccount signKey parent = (r, evs)"
  shows "commitOnlyAfterInclusion evs
       \<and> (\<forall>b res. EvWriteBlock b res \<in> set evs \<longrightarrow> EvSendAndWaitForStatus b None \<in> set evs)
       \<and> (list_ex isFailureBeforeInclusion evs \<longrightarrow>
            (\<exists>err p'. r = Returned (Some err) p' \<and> failureOf (last evs) = Some err)
            \<and> filter isLocalCommit evs = [])"
proof -
  let ?header = "newHeader sw myAccount parent"
  show ?thesis
  proof (cases "CalculateGasLimit (blockchain sw) (Number ?header)")
    case (Inl err)
    with assms show ?thesis
      by (auto simp: writeBlock_def Let_def commitOnlyAfterInclusion_def)
  next
    case gas: (Inr gasLimit)
    let ?header1 = "?header\<lparr>GasLimit := gasLimit,
        Timestamp := headerTimestamp (blockTime sw) (Timestamp parent)
          (Now (pkg sw) 1) (Now (pkg sw) 2)\<rparr>"
    show ?thesis
    proof (cases "AssignExtraValidators (pkg sw) ?header1 [myAccount]")
      case (Inl err)
      with assms gas show ?thesis
        by (auto simp: writeBlock_def Let_def commitOnlyAfterInclusion_def)
    next
      case extra: (Inr header2)
      show ?thesis
      proof (cases "BeginTxn (executor sw) (StateRoot parent) header2 myAccount")
        case (Inl err)
        with assms gas extra show ?thesis
          by (auto simp: writeBlock_def Let_def commitOnlyAfterInclusion_def)
      next
        case txn: (Inr ts)
        let ?evs1 = "[EvCalculateGasLimit (Number ?header) None,
                      EvAssignExtraValidators None, EvBeginTxn None]"
        show ?thesis
        proof (cases "writeTransactions (txpool sw) (transitions sw) gasLimit ts p")
          case None
          with assms gas extra txn show ?thesis
            by (auto simp: writeBlock_def Let_def commitOnlyAfterInclusion_def)
        next
          case (Some sel)
          obtain r2 evs2 where sp: "sealAndPublish sw signKey header2 sel = (r2, evs2)"
            by (cases "sealAndPublish sw signKey header2 sel")
          from assms gas extra txn Some sp
          have r: "r = r2" and evs: "evs = ?evs1 @ events sel @ evs2"
            by (simp_all add: writeBlock_def Let_def)
          have sel_ev: "list_all isSelectorEvent (events sel)"
            using Some by (rule writeTransactions_events)
          have pre_commit: "filter isLocalCommit (?evs1 @ events sel) = []"
            using selector_events_no_commit[OF sel_ev] by simp
          have pre_fail: "\<not> list_ex isFailureBeforeInclusion (?evs1 @ events sel)"
            using selector_events_no_failure[OF sel_ev] by simp
          have evs2_ne: "evs2 \<noteq> []"
            using sealAndPublish_nonempty [of sw signKey header2 sel] sp by simp
          have ordered: "commitOnlyAfterInclusion evs"
            unfolding evs append_assoc [symmetric]
            using pre_commit sealAndPublish_commit[of sw signKey header2 sel] sp
            by (intro commitOnlyAfterInclusion_append) simp_all
          have same: "EvSendAndWaitForStatus b None \<in> set evs"
            if "EvWriteBlock b res \<in> set evs" for b res
          proof -
            from that selector_events_no_write_block [OF sel_ev]
            have "EvWriteBlock b res \<in> set evs2" by (auto simp: evs)
            with sealAndPublish_same_block [of b res sw signKey header2 sel] sp
            show ?thesis by (simp add: evs)
          qed
          have failed: "(\<exists>err p'. r = Returned (Some err) p' \<and> failureOf (last evs) = Some err)
              \<and> filter isLocalCommit evs = []"
            if "list_ex isFailureBeforeInclusion evs"
          proof -
            from that pre_fail have "list_ex isFailureBeforeInclusion evs2"
              by (simp add: evs)
            from sealAndPublish_failure[OF sp this] pre_commit evs2_ne show ?thesis
              by (auto simp: r evs)
          qed
          from ordered same failed show ?thesis by blast
        qed
      qed
    qed
  qed
qed

lemma writeBlock_branches:
  assumes "writeBlock sw p myAccount signKey parent = (r, evs)"
  shows "(CalculateGasLimit (blockchain sw) (Number (newHeader sw myAccount parent)) = Inl err \<longrightarrow>
            r = Returned (Some err) p \<and>
            evs = [EvCalculateGasLimit (Number (newHeader sw myAccount parent)) (Some err)])
       \<and> (CalculateGasLimit (blockchain sw) (Number (newHeader sw myAccount parent)) = Inr gasLimit \<longrightarrow>
            (AssignExtraValidators (pkg sw)
               ((newHeader sw myAccount parent)\<lparr>GasLimit := gasLimit,
                  Timestamp := headerTimestamp (blockTime sw) (Timestamp parent)
                    (Now (pkg sw) 1) (Now (pkg sw) 2)\<rparr>) [myAccount] = Inl err \<longrightarrow>
               r = Returned (Some err) p \<and>
               evs = [EvCalculateGasLimit (Number (newHeader sw myAccount parent)) None,
                      EvAssignExtraValidators (Some err)])
          \<and> (AssignExtraValidators (pkg sw)
               ((newHeader sw myAccount parent)\<lparr>GasLimit := gasLimit,
                  Timestamp := headerTimestamp (blockTime sw) (Timestamp parent)
                    (Now (pkg sw) 1) (Now (pkg sw) 2)\<rparr>) [myAccount] = Inr headerV \<longrightarrow>
               (BeginTxn (executor sw) (StateRoot parent) headerV myAccount = Inl err \<longrightarrow>
                  r = Returned (Some err) p \<and>
                  evs = [EvCalculateGasLimit (Number (newHeader sw myAccount parent)) None,
                         EvAssignExtraValidators None, EvBeginTxn (Some err)])
             \<and> (BeginTxn (executor sw) (StateRoot parent) headerV myAccount = Inr ts \<and>
                writeTransactions (txpool sw) (transitions sw) gasLimit ts p = Some sel \<and>
                Commit (transitions sw) (transition sel) = (root, ts') \<and>
                blk = BuildBlock (pkg sw)
                        (headerV\<lparr>StateRoot := root, GasUsed := TotalGas (transitions sw) ts'\<rparr>)
                        (successful sel) (Receipts (transitions sw) ts') \<longrightarrow>
                  (WriteSeal (pkg sw) signKey (Header blk) = Inl err \<longrightarrow>
                     r = Returned (Some err) (pool sel) \<and>
                     evs = [EvCalculateGasLimit (Number (newHeader sw myAccount parent)) None,
                            EvAssignExtraValidators None, EvBeginTxn None]
                           @ events sel @ [EvCommit, EvWriteSeal (Some err)] \<and>
                     filter isLocalCommit evs = [])
                \<and> (WriteSeal (pkg sw) signKey (Header blk) = Inr headerS \<and>
                   SendAndWaitForStatus (availSender sw)
                     (blk\<lparr>Header := ComputeHash (pkg sw) headerS\<rparr>) = Some err \<longrightarrow>
                     r = Returned (Some err) (pool sel) \<and>
                     evs = [EvCalculateGasLimit (Number (newHeader sw myAccount parent)) None,
                            EvAssignExtraValidators None, EvBeginTxn None]
                           @ events sel
                           @ [EvCommit, EvWriteSeal None,
                              EvLog LvlInfo ''sending block to avail'',
                              EvSendAndWaitForStatus
                                (blk\<lparr>Header := ComputeHash (pkg sw) headerS\<rparr>) (Some err),
                              EvLog LvlError ''Error while submitting data to avail''] \<and>
                     filter isLocalCommit evs = []))))"
proof -
  have nc: "filter isLocalCommit (events sel) = []"
    if "writeTransactions (txpool sw) (transitions sw) gasLimit ts p = Some sel"
    using that by (rule writeTransactions_events [THEN selector_events_no_commit])
  from assms show ?thesis
    by (auto simp: writeBlock_def sealAndPublish_def Let_def nc)
qed

text \<open>
  Claim C1. In \<^verbatim>\<open>writeBlock\<close> the chain storage's \<^verbatim>\<open>WriteBlock\<close> (and the pool's
  reset) is called only after \<^verbatim>\<open>SendAndWaitForStatus\<close> has returned success, for the very
  block that is written. When \<^verbatim>\<open>CalculateGasLimit\<close>, \<^verbatim>\<open>AssignExtraValidators\<close> or
  \<^verbatim>\<open>BeginTxn\<close> returns an error, \<^verbatim>\<open>writeBlock\<close> returns that error at once, having
  made that call and nothing after it, with the pool untouched; when \<^verbatim>\<open>WriteSeal\<close> or
  the wait for inclusion returns an error, \<^verbatim>\<open>writeBlock\<close> returns that error with no
  local commit and no pool reset.
\<close>

theorem writeBlock_commits_only_after_inclusion:
  assumes "writeBlock sw p myAccount signKey parent = (r, evs)"
  shows "(CalculateGasLimit (blockchain sw) (Number (newHeader sw myAccount parent)) = Inl err \<longrightarrow>
            r = Returned (Some err) p \<and>
            evs = [EvCalculateGasLimit (Number (newHeader sw myAccount parent)) (Some err)])
       \<and> (CalculateGasLimit (blockchain sw) (Number (newHeader sw myAccount parent)) = Inr gasLimit \<longrightarrow>
            (AssignExtraValidators (pkg sw)
               ((newHeader sw myAccount parent)\<lparr>GasLimit := gasLimit,
                  Timestamp := headerTimestamp (blockTime sw) (Timestamp parent)
                    (Now (pkg sw) 1) (Now (pkg sw) 2)\<rparr>) [myAccount] = Inl err \<longrightarrow>
               r = Returned (Some err) p \<and>
               evs = [EvCalculateGasLimit (Number (newHeader sw myAccount parent)) None,
                      EvAssignExtraValidators (Some err)])
          \<and> (AssignExtraValidators (pkg sw)
               ((newHeader sw myAccount parent)\<lparr>GasLimit := gasLimit,
                  Timestamp := headerTimestamp (blockTime sw) (Timestamp parent)
                    (Now (pkg sw) 1) (Now (pkg sw) 2)\<rparr>) [myAccount] = Inr headerV \<longrightarrow>
               (BeginTxn (executor sw) (StateRoot parent) headerV myAccount = Inl err \<longrightarrow>
                  r = Returned (Some err) p \<and>
                  evs = [EvCalculateGasLimit (Number (newHeader sw myAccount parent)) None,
                         EvAssignExtraValidators None, EvBeginTxn (Some err)])
             \<and> (BeginTxn (executor sw) (StateRoot parent) headerV myAccount = Inr ts \<and>
                writeTransactions (txpool sw) (transitions sw) gasLimit ts p = Some sel \<and>
                Commit (transitions sw) (transition sel) = (root, ts') \<and>
                blk = BuildBlock (pkg sw)
                        (headerV\<lparr>StateRoot := root, GasUsed := TotalGas (transitions sw) ts'\<rparr>)
                        (successful sel) (Receipts (transitions sw) ts') \<longrightarrow>
                  (WriteSeal (pkg sw) signKey (Header blk) = Inl err \<longrightarrow>
                     r = Returned (Some err) (pool sel) \<and>
                     evs = [EvCalculateGasLimit (Number (newHeader sw myAccount parent)) None,
                            EvAssignExtraValidators None, EvBeginTxn None]
                           @ events sel @ [EvCommit, EvWriteSeal (Some err)] \<and>
                     filter isLocalCommit evs = [])
                \<and> (WriteSeal (pkg sw) signKey (Header blk) = Inr headerS \<and>
                   SendAndWaitForStatus (availSender sw)
                     (blk\<lparr>Header := ComputeHash (pkg sw) headerS\<rparr>) = Some err \<longrightarrow>
                     r = Returned (Some err) (pool sel) \<and>
                     evs = [EvCalculateGasLimit (Number (newHeader sw myAccount parent)) None,
                            EvAssignExtraValidators None, EvBeginTxn None]
                           @ events sel
                           @ [EvCommit, EvWriteSeal None,
                              EvLog LvlInfo ''sending block to avail'',
                              EvSendAndWaitForStatus
                                (blk\<lparr>Header := ComputeHash (pkg sw) headerS\<rparr>) (Some err),
                              EvLog LvlError ''Error while submitting data to avail''] \<and>
                     filter isLocalCommit evs = []))))
       \<and> commitOnlyAfterInclusion evs
       \<and> (\<forall>b res. EvWriteBlock b res \<in> set evs \<longrightarrow> EvSendAndWaitForStatus b None \<in> set evs)
       \<and> (list_ex isFailureBeforeInclusion evs \<longrightarrow>
            (\<exists>err p'. r = Returned (Some err) p' \<and> failureOf (last evs) = Some err)
            \<and> filter isLocalCommit evs = [])"
proof -
  note branches =
    writeBlock_branches [OF assms, of err gasLimit headerV ts sel root ts' blk headerS]
  note order = writeBlock_order [OF assms]
  show ?thesis
    by (rule conjI [OF branches [THEN conjunct1] conjI [OF branches [THEN conjunct2] order]])
qed

lemma headerTimestamp_unfold:
  "headerTimestamp minInterval parentTimestamp now1 now2 =
     uint64 (timeUnixSec
       (if timeBefore (timeAdd (timeUnix (int64 parentTimestamp)) minInterval) (timeNow now1)
        then timeNow now2
        else timeAdd (timeUnix (int64 parentTimestamp)) minInterval))"
  by (simp only: headerTimestamp_def Let_def)

lemmas part_defs = writeTransactions_def selectStep_def newHeader_def headerTimestamp_unfold
  int64_def uint64_def wrap64_def truncDiv_def truncRem_def unixToInternal_def timeUnix_def
  addSec_def timeAdd_def timeBefore_def timeUnixSec_def timeNow_def second_def
  ExceedsBlockGasLimit_def Let_def

lemmas model_defs = tick_def restOfTick_def leaderTurn_def writeBlock_def sealAndPublish_def
  part_defs

lemmas example_defs = exampleWorker_def exampleBlock_def exampleState_def listPool_def
  gasMeter_def genesis_def mkTx_def

lemma writeBlock_succeeds:
  "writeBlock exampleWorker [mkTx 7 50] [1] 42 genesis =
   (Returned None [],
    [EvCalculateGasLimit 1 None, EvAssignExtraValidators None, EvBeginTxn None, EvPrepare,
     EvPeek (Some (mkTx 7 50)), EvLog LvlDebug ''found transaction from txpool'',
     EvWrite (mkTx 7 50) None, EvPop (mkTx 7 50), EvPeek None, EvCommit, EvWriteSeal None,
     EvLog LvlInfo ''sending block to avail'',
     EvSendAndWaitForStatus
       \<lparr>Header = \<lparr>ParentHash = 1000, Number = 1, Miner = [1], Nonce = 0, GasLimit = 100,
                   Timestamp = 200, StateRoot = 0, GasUsed = 50, ExtraData = [1],
                   Hash = 1001\<rparr>,
        Transactions = [mkTx 7 50]\<rparr> None,
     EvLog LvlInfo ''sent block to avail'',
     EvLog LvlInfo ''writing block to blockchain'',
     EvWriteBlock
       \<lparr>Header = \<lparr>ParentHash = 1000, Number = 1, Miner = [1], Nonce = 0, GasLimit = 100,
                   Timestamp = 200, StateRoot = 0, GasUsed = 50, ExtraData = [1],
                   Hash = 1001\<rparr>,
        Transactions = [mkTx 7 50]\<rparr> None,
     EvLog LvlInfo ''Successfully wrote block to blockchain'',
     EvResetWithHeaders
       \<lparr>ParentHash = 1000, Number = 1, Miner = [1], Nonce = 0, GasLimit = 100,
        Timestamp = 200, StateRoot = 0, GasUsed = 50, ExtraData = [1], Hash = 1001\<rparr>])"
  by (simp add: model_defs example_defs selectLoop.simps)

theorem writeBlock_commits_only_after_inclusion_witness:
  "writeBlock
     (exampleWorker\<lparr>blockchain :=
        (blockchain exampleWorker)\<lparr>CalculateGasLimit := (\<lambda>n. Inl (OtherError ''gas''))\<rparr>\<rparr>)
     [mkTx 7 50] [1] 42 genesis =
   (Returned (Some (OtherError ''gas'')) [mkTx 7 50],
    [EvCalculateGasLimit 1 (Some (OtherError ''gas''))])
   \<and> writeBlock
     (exampleWorker\<lparr>pkg :=
        (pkg exampleWorker)\<lparr>AssignExtraValidators := (\<lambda>h v. Inl (OtherError ''extra''))\<rparr>\<rparr>)
     [mkTx 7 50] [1] 42 genesis =
   (Returned (Some (OtherError ''extra'')) [mkTx 7 50],
    [EvCalculateGasLimit 1 None, EvAssignExtraValidators (Some (OtherError ''extra''))])
   \<and> writeBlock
     (exampleWorker\<lparr>executor := \<lparr>BeginTxn = (\<lambda>root h c. Inl (OtherError ''state''))\<rparr>\<rparr>)
     [mkTx 7 50] [1] 42 genesis =
   (Returned (Some (OtherError ''state'')) [mkTx 7 50],
    [EvCalculateGasLimit 1 None, EvAssignExtraValidators None,
     EvBeginTxn (Some (OtherError ''state''))])
   \<and> writeBlock
     (exampleWorker\<lparr>pkg := (pkg exampleWorker)\<lparr>WriteSeal := (\<lambda>k h. Inl (OtherError ''seal''))\<rparr>\<rparr>)
     [mkTx 7 50] [1] 42 genesis =
   (Returned (Some (OtherError ''seal'')) [],
    [EvCalculateGasLimit 1 None, EvAssignExtraValidators None, EvBeginTxn None, EvPrepare,
     EvPeek (Some (mkTx 7 50)), EvLog LvlDebug ''found transaction from txpool'',
     EvWrite (mkTx 7 50) None, EvPop (mkTx 7 50), EvPeek None, EvCommit,
     EvWriteSeal (Some (OtherError ''seal''))])
   \<and> writeBlock
     (exampleWorker\<lparr>availSender :=
        \<lparr>SendAndWaitForStatus = (\<lambda>b. Some (OtherError ''timeout''))\<rparr>\<rparr>)
     [mkTx 7 50] [1] 42 genesis =
   (Returned (Some (OtherError ''timeout'')) [],
    [EvCalculateGasLimit 1 None, EvAssignExtraValidators None, EvBeginTxn None, EvPrepare,
     EvPeek (Some (mkTx 7 50)), EvLog LvlDebug ''found transaction from txpool'',
     EvWrite (mkTx 7 50) None, EvPop (mkTx 7 50), EvPeek None, EvCommit, EvWriteSeal None,
     EvLog LvlInfo ''sending block to avail'',
     EvSendAndWaitForStatus
       \<lparr>Header = \<lparr>ParentHash = 1000, Number = 1, Miner = [1], Nonce = 0, GasLimit = 100,
                   Timestamp = 200, StateRoot = 0, GasUsed = 50, ExtraData = [1],
                   Hash = 1001\<rparr>,
        Transactions = [mkTx 7 50]\<rparr> (Some (OtherError ''timeout'')),
     EvLog LvlError ''Error while submitting data to avail''])
   \<and> fst (writeBlock exampleWorker [mkTx 7 50] [1] 42 genesis) = Returned None []
   \<and> filter isLocalCommit (snd (writeBlock exampleWorker [mkTx 7 50] [1] 42 genesis)) \<noteq> []
   \<and> commitOnlyAfterInclusion (snd (writeBlock exampleWorker [mkTx 7 50] [1] 42 genesis))"
proof -
  let ?h2 = "\<lparr>ParentHash = 1000, Number = 1, Miner = [1], Nonce = 0, GasLimit = 100,
              Timestamp = 200, StateRoot = 0, GasUsed = 0, ExtraData = [1], Hash = 0\<rparr>"
  let ?sel = "\<lparr>successful = [mkTx 7 50], transition = (100, 50), pool = [],
               events = [EvPrepare, EvPeek (Some (mkTx 7 50)),
                         EvLog LvlDebug ''found transaction from txpool'',
                         EvWrite (mkTx 7 50) None, EvPop (mkTx 7 50), EvPeek None]\<rparr>
             :: (nat \<times> nat, transaction list) selection"
  let ?blk = "\<lparr>Header = ?h2\<lparr>GasUsed := 50\<rparr>, Transactions = [mkTx 7 50]\<rparr>"
  have gas: "writeBlock
     (exampleWorker\<lparr>blockchain :=
        (blockchain exampleWorker)\<lparr>CalculateGasLimit := (\<lambda>n. Inl (OtherError ''gas''))\<rparr>\<rparr>)
     [mkTx 7 50] [1] 42 genesis =
   (Returned (Some (OtherError ''gas'')) [mkTx 7 50],
    [EvCalculateGasLimit 1 (Some (OtherError ''gas''))])"
    using writeBlock_commits_only_after_inclusion
      [where sw = "exampleWorker\<lparr>blockchain :=
           (blockchain exampleWorker)\<lparr>CalculateGasLimit := (\<lambda>n. Inl (OtherError ''gas''))\<rparr>\<rparr>"
         and p = "[mkTx 7 50]" and myAccount = "[1]" and signKey = 42 and parent = genesis
         and err = "OtherError ''gas''", OF surjective_pairing, THEN conjunct1]
    by (simp add: part_defs example_defs prod_eq_iff)
  have extra: "writeBlock
     (exampleWorker\<lparr>pkg :=
        (pkg exampleWorker)\<lparr>AssignExtraValidators := (\<lambda>h v. Inl (OtherError ''extra''))\<rparr>\<rparr>)
     [mkTx 7 50] [1] 42 genesis =
   (Returned (Some (OtherError ''extra'')) [mkTx 7 50],
    [EvCalculateGasLimit 1 None, EvAssignExtraValidators (Some (OtherError ''extra''))])"
    using writeBlock_commits_only_after_inclusion
      [where sw = "exampleWorker\<lparr>pkg :=
           (pkg exampleWorker)\<lparr>AssignExtraValidators := (\<lambda>h v. Inl (OtherError ''extra''))\<rparr>\<rparr>"
         and p = "[mkTx 7 50]" and myAccount = "[1]" and signKey = 42 and parent = genesis
         and err = "OtherError ''extra''" and gasLimit = 100, OF surjective_pairing,
       THEN conjunct2, THEN conjunct1]
    by (simp add: part_defs example_defs prod_eq_iff)
  have state: "writeBlock
     (exampleWorker\<lparr>executor := \<lparr>BeginTxn = (\<lambda>root h c. Inl (OtherError ''state''))\<rparr>\<rparr>)
     [mkTx 7 50] [1] 42 genesis =
   (Returned (Some (OtherError ''state'')) [mkTx 7 50],
    [EvCalculateGasLimit 1 None, EvAssignExtraValidators None,
     EvBeginTxn (Some (OtherError ''state''))])"
    using writeBlock_commits_only_after_inclusion
      [where sw = "exampleWorker\<lparr>executor := \<lparr>BeginTxn = (\<lambda>root h c. Inl (OtherError ''state''))\<rparr>\<rparr>"
         and p = "[mkTx 7 50]" and myAccount = "[1]" and signKey = 42 and parent = genesis
         and err = "OtherError ''state''" and gasLimit = 100 and headerV = ?h2,
       OF surjective_pairing, THEN conjunct2, THEN conjunct1]
    by (simp add: part_defs example_defs prod_eq_iff)
  have seal: "writeBlock
     (exampleWorker\<lparr>pkg := (pkg exampleWorker)\<lparr>WriteSeal := (\<lambda>k h. Inl (OtherError ''seal''))\<rparr>\<rparr>)
     [mkTx 7 50] [1] 42 genesis =
   (Returned (Some (OtherError ''seal'')) [],
    [EvCalculateGasLimit 1 None, EvAssignExtraValidators None, EvBeginTxn None, EvPrepare,
     EvPeek (Some (mkTx 7 50)), EvLog LvlDebug ''found transaction from txpool'',
     EvWrite (mkTx 7 50) None, EvPop (mkTx 7 50), EvPeek None, EvCommit,
     EvWriteSeal (Some (OtherError ''seal''))])"
    using writeBlock_commits_only_after_inclusion
      [where sw = "exampleWorker\<lparr>pkg := (pkg exampleWorker)\<lparr>WriteSeal := (\<lambda>k h. Inl (OtherError ''seal''))\<rparr>\<rparr>"
         and p = "[mkTx 7 50]" and myAccount = "[1]" and signKey = 42 and parent = genesis
         and err = "OtherError ''seal''" and gasLimit = 100 and headerV = ?h2
         and ts = "(100, 0)" and sel = ?sel and root = 0 and ts' = "(100, 50)" and blk = ?blk,
       OF surjective_pairing, THEN conjunct2, THEN conjunct1]
    by (simp add: part_defs example_defs selectLoop.simps prod_eq_iff)
  have timeout: "writeBlock
     (exampleWorker\<lparr>availSender :=
        \<lparr>SendAndWaitForStatus = (\<lambda>b. Some (OtherError ''timeout''))\<rparr>\<rparr>)
     [mkTx 7 50] [1] 42 genesis =
   (Returned (Some (OtherError ''timeout'')) [],
    [EvCalculateGasLimit 1 None, EvAssignExtraValidators None, EvBeginTxn None, EvPrepare,
     EvPeek (Some (mkTx 7 50)), EvLog LvlDebug ''found transaction from txpool'',
     EvWrite (mkTx 7 50) None, EvPop (mkTx 7 50), EvPeek None, EvCommit, EvWriteSeal None,
     EvLog LvlInfo ''sending block to avail'',
     EvSendAndWaitForStatus
       \<lparr>Header = \<lparr>ParentHash = 1000, Number = 1, Miner = [1], Nonce = 0, GasLimit = 100,
                   Timestamp = 200, StateRoot = 0, GasUsed = 50, ExtraData = [1],
                   Hash = 1001\<rparr>,
        Transactions = [mkTx 7 50]\<rparr> (Some (OtherError ''timeout'')),
     EvLog LvlError ''Error while submitting data to avail''])"
    using writeBlock_commits_only_after_inclusion
      [where sw = "exampleWorker\<lparr>availSender :=
           \<lparr>SendAndWaitForStatus = (\<lambda>b. Some (OtherError ''timeout''))\<rparr>\<rparr>"
         and p = "[mkTx 7 50]" and myAccount = "[1]" and signKey = 42 and parent = genesis
         and err = "OtherError ''timeout''" and gasLimit = 100 and headerV = ?h2
         and ts = "(100, 0)" and sel = ?sel and root = 0 and ts' = "(100, 50)" and blk = ?blk
         and headerS = "?h2\<lparr>GasUsed := 50\<rparr>",
       OF surjective_pairing, THEN conjunct2, THEN conjunct1]
    by (simp add: part_defs example_defs selectLoop.simps prod_eq_iff)
  have success: "fst (writeBlock exampleWorker [mkTx 7 50] [1] 42 genesis) = Returned None []"
    "filter isLocalCommit (snd (writeBlock exampleWorker [mkTx 7 50] [1] 42 genesis)) \<noteq> []"
    by (simp_all add: writeBlock_succeeds)
  have ordered:
    "commitOnlyAfterInclusion (snd (writeBlock exampleWorker [mkTx 7 50] [1] 42 genesis))"
    using writeBlock_commits_only_after_inclusion
      [where sw = exampleWorker and p = "[mkTx 7 50]" and myAccount = "[1]" and signKey = 42
         and parent = genesis,
       OF surjective_pairing, THEN conjunct2, THEN conjunct2, THEN conjunct1] .
  show ?thesis
    by (intro conjI) (rule gas extra state seal timeout success ordered)+
qed


section \<open>The selector\<close>

lemma scenario_run:
  "writeTransactions listPool gasMeter 100 (100, 0) [mkTx 11 50, mkTx 12 60, mkTx 13 5] =
   Some \<lparr>successful = [mkTx 11 50], transition = (100, 50), pool = [mkTx 12 60, mkTx 13 5],
         events =
           [EvPrepare,
            EvPeek (Some (mkTx 11 50)), EvLog LvlDebug ''found transaction from txpool'',
            EvWrite (mkTx 11 50) None, EvPop (mkTx 11 50),
            EvPeek (Some (mkTx 12 60)), EvLog LvlDebug ''found transaction from txpool'',
            EvWrite (mkTx 12 60) (Some GasLimitReachedTransitionApplicationError),
            EvLog LvlWarn ''transaction reached gas limit during excution'']\<rparr>"
  by (simp add: model_defs example_defs selectLoop.simps)

text \<open>
  Claim C3 as stated fails: with a pool of three transactions costing 50, 60 and 5, a block
  gas limit of 100 and a transition that meters gas, the selector includes only the first
  transaction; the second is not dropped but stays in the pool, with the third.
\<close>

theorem selector_scenario_counterexample:
  "map_option successful
     (writeTransactions listPool gasMeter 100 (100, 0) [mkTx 11 50, mkTx 12 60, mkTx 13 5])
     \<noteq> Some [mkTx 11 50, mkTx 13 5]
   \<and> map_option successful
     (writeTransactions listPool gasMeter 100 (100, 0) [mkTx 11 50, mkTx 12 60, mkTx 13 5])
     = Some [mkTx 11 50]
   \<and> map_option pool
     (writeTransactions listPool gasMeter 100 (100, 0) [mkTx 11 50, mkTx 12 60, mkTx 13 5])
     = Some [mkTx 12 60, mkTx 13 5]"
  unfolding scenario_run by (simp add: mkTx_def)

text \<open>
  Claim C3, amended. The selector drops a peeked transaction without attempting execution
  exactly when the transaction's gas alone exceeds the block gas limit passed to the
  selector, the same limit in every pass and not what is left of it, and then continues
  with the next transaction; a transaction within that limit is always handed to the
  transition. For the pool costing 50, 60 and 5 with block gas limit 100 and a transition
  that meters gas, the selector includes the transaction costing 50, the execution of the
  one costing 60 fails with gas-limit-reached, selection stops there, and the transactions
  costing 60 and 5 stay in the pool.
\<close>

theorem selector_drops_on_block_gas_limit:
  assumes "Peek txp (pool s) = (Some tx, p1)"
  shows "(ExceedsBlockGasLimit tx gasLimit \<longrightarrow>
            selectLoop txp tr gasLimit s =
            selectLoop txp tr gasLimit
              (s\<lparr>pool := Drop txp tx p1,
                 events := events s @
                   [EvPeek (Some tx), EvLog LvlDebug ''found transaction from txpool'',
                    EvDrop tx]\<rparr>))
       \<and> (\<not> ExceedsBlockGasLimit tx gasLimit \<longrightarrow>
            (\<exists>rest. events (stepState (selectStep txp tr gasLimit s)) =
               events s @
                 [EvPeek (Some tx), EvLog LvlDebug ''found transaction from txpool'',
                  EvWrite tx (fst (Write tr tx (transition s)))] @ rest))
       \<and> ExceedsBlockGasLimit tx gasLimit = (gasLimit < tx_Gas tx)
       \<and> writeTransactions listPool gasMeter 100 (100, 0)
            [mkTx 11 50, mkTx 12 60, mkTx 13 5] =
          Some \<lparr>successful = [mkTx 11 50], transition = (100, 50),
                pool = [mkTx 12 60, mkTx 13 5],
                events =
                  [EvPrepare,
                   EvPeek (Some (mkTx 11 50)), EvLog LvlDebug ''found transaction from txpool'',
                   EvWrite (mkTx 11 50) None, EvPop (mkTx 11 50),
                   EvPeek (Some (mkTx 12 60)), EvLog LvlDebug ''found transaction from txpool'',
                   EvWrite (mkTx 12 60) (Some GasLimitReachedTransitionApplicationError),
                   EvLog LvlWarn ''transaction reached gas limit during excution'']\<rparr>"
proof -
  have drops: "selectLoop txp tr gasLimit s =
            selectLoop txp tr gasLimit
              (s\<lparr>pool := Drop txp tx p1,
                 events := events s @
                   [EvPeek (Some tx), EvLog LvlDebug ''found transaction from txpool'',
                    EvDrop tx]\<rparr>)" if "ExceedsBlockGasLimit tx gasLimit"
    using assms that by (subst selectLoop.simps) (simp add: selectStep_def)
  have executes: "\<exists>rest. events (stepState (selectStep txp tr gasLimit s)) =
               events s @
                 [EvPeek (Some tx), EvLog LvlDebug ''found transaction from txpool'',
                  EvWrite tx (fst (Write tr tx (transition s)))] @ rest"
    if "\<not> ExceedsBlockGasLimit tx gasLimit"
    using assms that
    by (auto simp: selectStep_def stepState_def Let_def split: prod.splits option.splits)
  from drops executes scenario_run show ?thesis
    by (simp add: ExceedsBlockGasLimit_def)
qed

text \<open>
  Claim C4. For a peeked transaction that the selector hands to the transition: a
  gas-limit-reached failure ends selection at once, with the transaction not included and
  the pool as \<^verbatim>\<open>Peek\<close> left it (no \<^verbatim>\<open>Pop\<close>, \<^verbatim>\<open>Drop\<close> or \<^verbatim>\<open>Demote\<close>); a recoverable
  application failure demotes it and selection continues; any other failure drops it and
  selection continues; success pops it, appends it to the included sequence, and selection
  continues.
\<close>

theorem selector_classifies_execution_result:
  assumes "Peek txp (pool s) = (Some tx, p1)"
    and "\<not> ExceedsBlockGasLimit tx gasLimit"
    and "Write tr tx (transition s) = (res, ts1)"
  shows "(res = Some GasLimitReachedTransitionApplicationError \<longrightarrow>
            selectLoop txp tr gasLimit s =
            Some (s\<lparr>transition := ts1, pool := p1,
                    events := events s @
                      [EvPeek (Some tx), EvLog LvlDebug ''found transaction from txpool'',
                       EvWrite tx res,
                       EvLog LvlWarn ''transaction reached gas limit during excution'']\<rparr>))
       \<and> (res = Some (TransitionApplicationError True) \<longrightarrow>
            selectLoop txp tr gasLimit s =
            selectLoop txp tr gasLimit
              (s\<lparr>transition := ts1, pool := Demote txp tx p1,
                 events := events s @
                   [EvPeek (Some tx), EvLog LvlDebug ''found transaction from txpool'',
                    EvWrite tx res,
                    EvLog LvlWarn ''transaction caused application error'', EvDemote tx]\<rparr>))
       \<and> ((\<exists>err. res = Some err \<and> err \<noteq> GasLimitReachedTransitionApplicationError
                  \<and> err \<noteq> TransitionApplicationError True) \<longrightarrow>
            selectLoop txp tr gasLimit s =
            selectLoop txp tr gasLimit
              (s\<lparr>transition := ts1, pool := Drop txp tx p1,
                 events := events s @
                   [EvPeek (Some tx), EvLog LvlDebug ''found transaction from txpool'',
                    EvWrite tx res,
                    EvLog LvlError ''transaction caused unknown error'', EvDrop tx]\<rparr>))
       \<and> (res = None \<longrightarrow>
            selectLoop txp tr gasLimit s =
            selectLoop txp tr gasLimit
              (s\<lparr>successful := successful s @ [tx], transition := ts1, pool := Pop txp tx p1,
                 events := events s @
                   [EvPeek (Some tx), EvLog LvlDebug ''found transaction from txpool'',
                    EvWrite tx res, EvPop tx]\<rparr>))"
  using assms
  by (subst (1 2 3 4) selectLoop.simps) (auto simp: selectStep_def Let_def)


theorem selector_drops_on_block_gas_limit_witness:
  "Peek listPool [mkTx 21 150] = (Some (mkTx 21 150), [mkTx 21 150])
   \<and> ExceedsBlockGasLimit (mkTx 21 150) 100
   \<and> selectLoop listPool gasMeter 100
        \<lparr>successful = [], transition = (100, 0), pool = [mkTx 21 150], events = []\<rparr> =
      selectLoop listPool gasMeter 100
        \<lparr>successful = [], transition = (100, 0), pool = [],
         events = [EvPeek (Some (mkTx 21 150)), EvLog LvlDebug ''found transaction from txpool'',
                   EvDrop (mkTx 21 150)]\<rparr>
   \<and> Peek listPool [mkTx 11 50] = (Some (mkTx 11 50), [mkTx 11 50])
   \<and> \<not> ExceedsBlockGasLimit (mkTx 11 50) 100
   \<and> (\<exists>rest. events (stepState (selectStep listPool gasMeter 100
          \<lparr>successful = [], transition = (100, 0), pool = [mkTx 11 50], events = []\<rparr>)) =
        [EvPeek (Some (mkTx 11 50)), EvLog LvlDebug ''found transaction from txpool'',
         EvWrite (mkTx 11 50) None] @ rest)"
proof -
  have peek1: "Peek listPool (pool \<lparr>successful = [], transition = (100::nat, 0::nat),
      pool = [mkTx 21 150], events = []\<rparr>) = (Some (mkTx 21 150), [mkTx 21 150])"
    by (simp add: listPool_def)
  have peek2: "Peek listPool (pool \<lparr>successful = [], transition = (100::nat, 0::nat),
      pool = [mkTx 11 50], events = []\<rparr>) = (Some (mkTx 11 50), [mkTx 11 50])"
    by (simp add: listPool_def)
  have big: "ExceedsBlockGasLimit (mkTx 21 150) 100"
    and small: "\<not> ExceedsBlockGasLimit (mkTx 11 50) 100"
    by (simp_all add: ExceedsBlockGasLimit_def mkTx_def)
  from selector_drops_on_block_gas_limit [OF peek1, of 100 gasMeter] big
    selector_drops_on_block_gas_limit [OF peek2, of 100 gasMeter] small
  show ?thesis
    by (simp add: listPool_def gasMeter_def mkTx_def)
qed

theorem selector_classifies_execution_result_witness:
  "selectLoop listPool (scripted (\<lambda>h. Some GasLimitReachedTransitionApplicationError)) 100
     \<lparr>successful = [], transition = (), pool = [mkTx 11 50], events = []\<rparr> =
   Some \<lparr>successful = [], transition = (), pool = [mkTx 11 50],
         events = [EvPeek (Some (mkTx 11 50)), EvLog LvlDebug ''found transaction from txpool'',
                   EvWrite (mkTx 11 50) (Some GasLimitReachedTransitionApplicationError),
                   EvLog LvlWarn ''transaction reached gas limit during excution'']\<rparr>
   \<and> selectLoop listPool (scripted (\<lambda>h. Some (TransitionApplicationError True))) 100
     \<lparr>successful = [], transition = (), pool = [mkTx 11 50, mkTx 12 60], events = []\<rparr> =
     selectLoop listPool (scripted (\<lambda>h. Some (TransitionApplicationError True))) 100
     \<lparr>successful = [], transition = (), pool = [mkTx 12 60, mkTx 11 50],
      events = [EvPeek (Some (mkTx 11 50)), EvLog LvlDebug ''found transaction from txpool'',
                EvWrite (mkTx 11 50) (Some (TransitionApplicationError True)),
                EvLog LvlWarn ''transaction caused application error'',
                EvDemote (mkTx 11 50)]\<rparr>
   \<and> selectLoop listPool (scripted (\<lambda>h. Some (TransitionApplicationError False))) 100
     \<lparr>successful = [], transition = (), pool = [mkTx 11 50, mkTx 12 60], events = []\<rparr> =
     selectLoop listPool (scripted (\<lambda>h. Some (TransitionApplicationError False))) 100
     \<lparr>successful = [], transition = (), pool = [mkTx 12 60],
      events = [EvPeek (Some (mkTx 11 50)), EvLog LvlDebug ''found transaction from txpool'',
                EvWrite (mkTx 11 50) (Some (TransitionApplicationError False)),
                EvLog LvlError ''transaction caused unknown error'',
                EvDrop (mkTx 11 50)]\<rparr>
   \<and> selectLoop listPool (scripted (\<lambda>h. None)) 100
     \<lparr>successful = [], transition = (), pool = [mkTx 11 50, mkTx 12 60], events = []\<rparr> =
     selectLoop listPool (scripted (\<lambda>h. None)) 100
     \<lparr>successful = [mkTx 11 50], transition = (), pool = [mkTx 12 60],
      events = [EvPeek (Some (mkTx 11 50)), EvLog LvlDebug ''found transaction from txpool'',
                EvWrite (mkTx 11 50) None, EvPop (mkTx 11 50)]\<rparr>"
proof -
  have fits: "\<not> ExceedsBlockGasLimit (mkTx 11 50) 100"
    by (simp add: ExceedsBlockGasLimit_def mkTx_def)
  have peek1: "Peek listPool (pool \<lparr>successful = [], transition = (),
      pool = [mkTx 11 50], events = []\<rparr>) = (Some (mkTx 11 50), [mkTx 11 50])"
    by (simp add: listPool_def)
  have peek2: "Peek listPool (pool \<lparr>successful = [], transition = (),
      pool = [mkTx 11 50, mkTx 12 60], events = []\<rparr>) =
      (Some (mkTx 11 50), [mkTx 11 50, mkTx 12 60])"
    by (simp add: listPool_def)
  have wr: "Write (scripted (\<lambda>h. r)) (mkTx 11 50) (transition \<lparr>successful = [],
      transition = (), pool = p, events = []\<rparr>) = (r, ())" for r and p :: "transaction list"
    by (simp add: scripted_def)
  from selector_classifies_execution_result [OF peek1 fits wr]
    selector_classifies_execution_result [OF peek2 fits wr]
  show ?thesis
    apply (intro conjI)
       apply (simp add: listPool_def mkTx_def)
      apply (simp add: listPool_def mkTx_def)
     apply (simp add: listPool_def mkTx_def)
    apply (simp add: listPool_def mkTx_def)
    done
qed


section \<open>The tick\<close>

lemma leaderTurn_asks_first:
  "list_ex isContains (snd (leaderTurn sw account key w))"
  by (simp add: leaderTurn_def Let_def
      split: sum.splits prod.splits produced.splits option.splits)

lemma leaderTurn_recordedTick:
  "recordedTick (fst (leaderTurn sw account key w)) = DATick w"
  by (simp add: leaderTurn_def Let_def
      split: sum.splits prod.splits produced.splits option.splits)

lemma restOfTick_recordedTick:
  "recordedTick (fst (restOfTick sw account key w edgeBlks)) = DATick w"
  using leaderTurn_recordedTick [of sw account key w]
  by (simp add: restOfTick_def Let_def case_prod_beta split: option.splits)

lemma tick_recordedTick:
  "recordedTick (fst (tick sw account key w blk)) = uint (avail_Number blk)"
  using restOfTick_recordedTick [of sw account key "w\<lparr>DATick := uint (avail_Number blk)\<rparr>"]
  by (simp add: tick_def Let_def case_prod_beta)

lemma writes_not_contains:
  "\<not> list_ex isContains (map (\<lambda>b. EvWriteBlock b (f b)) bs)"
  by (simp add: list_ex_iff)


section \<open>The leader check\<close>

text \<open>
  Claim C2 as stated fails: the emptiness of the active set is not checked first. With a
  failing staked-status query and an empty active set the tick is skipped and the process
  does not abort.
\<close>

theorem leader_check_order_counterexample:
  "Get (activeSequencersQuerier
     (exampleWorker\<lparr>activeSequencersQuerier :=
        \<lparr>Contains = (\<lambda>a. Inl (OtherError ''registry unavailable'')), Get = Inr []\<rparr>\<rparr>)) = Inr []
   \<and> tick
     (exampleWorker\<lparr>activeSequencersQuerier :=
        \<lparr>Contains = (\<lambda>a. Inl (OtherError ''registry unavailable'')), Get = Inr []\<rparr>\<rparr>)
     [1] 42 exampleState exampleBlock =
     (NextTick \<lparr>DATick = 7, poolState = []\<rparr>,
      [EvStore 7, EvFromAvail exampleBlock,
       EvLog LvlError ''cannot extract Edge block from Avail block'',
       EvCheckAndSetFraudBlock [], EvCheckAndSlash None, EvContains [1],
       EvLog LvlError
         ''failed to check if my account is among active staked sequencers; cannot continue''])"
  by (simp add: model_defs example_defs)

text \<open>
  Claim C2, amended. On every tick that reaches the leader check, the policy is evaluated
  in this order: first the staked-status query for the local address, whose failure skips
  the tick; second, a local address that is not staked skips production; third the active
  set is queried, and a failure of that query skips the tick; fourth, an empty active set
  aborts the process; otherwise the local node is leader, and produces a block, if and only
  if the first element of the active set equals the local address.
\<close>

theorem leader_check_order:
  "(\<forall>e. Contains (activeSequencersQuerier sw) (nodeAddr sw) = Inl e \<longrightarrow>
      leaderTurn sw account key w =
      (NextTick w,
       [EvContains (nodeAddr sw),
        EvLog LvlError
          ''failed to check if my account is among active staked sequencers; cannot continue'']))
   \<and> (Contains (activeSequencersQuerier sw) (nodeAddr sw) = Inr False \<longrightarrow>
      leaderTurn sw account key w =
      (NextTick w,
       [EvContains (nodeAddr sw),
        EvLog LvlError ''my account is not among active staked sequencers; cannot continue'']))
   \<and> (Contains (activeSequencersQuerier sw) (nodeAddr sw) = Inr True \<longrightarrow>
      (\<forall>e. Get (activeSequencersQuerier sw) = Inl e \<longrightarrow>
         leaderTurn sw account key w =
         (NextTick w,
          [EvContains (nodeAddr sw), EvGet,
           EvLog LvlError ''querying staked sequencers failed; quitting'']))
      \<and> (Get (activeSequencersQuerier sw) = Inr [] \<longrightarrow>
         leaderTurn sw account key w =
         (Panicked (DATick w) ''no staked sequencers'', [EvContains (nodeAddr sw), EvGet]))
      \<and> (\<forall>first others. Get (activeSequencersQuerier sw) = Inr (first # others) \<longrightarrow>
         (first \<noteq> nodeAddr sw \<longrightarrow>
            leaderTurn sw account key w =
            (NextTick w,
             [EvContains (nodeAddr sw), EvGet,
              EvLog LvlInfo ''it's not my turn; skippin' a round'']))
         \<and> (first = nodeAddr sw \<longrightarrow>
            (\<exists>post. snd (leaderTurn sw account key w) =
               [EvContains (nodeAddr sw), EvGet, EvHeader,
                EvLog LvlInfo ''it's my turn; producing a block'']
               @ snd (writeBlock sw (poolState w) account key (ChainHeader (blockchain sw)))
               @ post))))"
  by (auto simp: leaderTurn_def Let_def split: prod.splits produced.splits option.splits)


theorem leader_check_order_witness:
  "leaderTurn
     (exampleWorker\<lparr>activeSequencersQuerier :=
        \<lparr>Contains = (\<lambda>a. Inl (OtherError ''registry unavailable'')), Get = Inr []\<rparr>\<rparr>)
     [1] 42 exampleState =
     (NextTick exampleState,
      [EvContains [1],
       EvLog LvlError
         ''failed to check if my account is among active staked sequencers; cannot continue''])
   \<and> leaderTurn
     (exampleWorker\<lparr>activeSequencersQuerier :=
        \<lparr>Contains = (\<lambda>a. Inr False), Get = Inr []\<rparr>\<rparr>)
     [1] 42 exampleState =
     (NextTick exampleState,
      [EvContains [1],
       EvLog LvlError ''my account is not among active staked sequencers; cannot continue''])
   \<and> leaderTurn
     (exampleWorker\<lparr>activeSequencersQuerier :=
        \<lparr>Contains = (\<lambda>a. Inr True), Get = Inr []\<rparr>\<rparr>)
     [1] 42 exampleState =
     (Panicked 0 ''no staked sequencers'', [EvContains [1], EvGet])
   \<and> leaderTurn
     (exampleWorker\<lparr>activeSequencersQuerier :=
        \<lparr>Contains = (\<lambda>a. Inr True), Get = Inl (OtherError ''registry unavailable'')\<rparr>\<rparr>)
     [1] 42 exampleState =
     (NextTick exampleState,
      [EvContains [1], EvGet, EvLog LvlError ''querying staked sequencers failed; quitting''])
   \<and> leaderTurn (exampleWorker\<lparr>nodeAddr := [2]\<rparr>) [2] 42 exampleState =
     (NextTick exampleState,
      [EvContains [2], EvGet, EvLog LvlInfo ''it's not my turn; skippin' a round''])
   \<and> (\<exists>post. snd (leaderTurn exampleWorker [1] 42 exampleState) =
        [EvContains [1], EvGet, EvHeader, EvLog LvlInfo ''it's my turn; producing a block'']
        @ snd (writeBlock exampleWorker [] [1] 42 genesis) @ post)"
proof (intro conjI)
  let ?W1 = "exampleWorker\<lparr>activeSequencersQuerier :=
        \<lparr>Contains = (\<lambda>a. Inl (OtherError ''registry unavailable'')), Get = Inr []\<rparr>\<rparr>"
  let ?W2 = "exampleWorker\<lparr>activeSequencersQuerier :=
        \<lparr>Contains = (\<lambda>a. Inr False), Get = Inr []\<rparr>\<rparr>"
  let ?W3 = "exampleWorker\<lparr>activeSequencersQuerier :=
        \<lparr>Contains = (\<lambda>a. Inr True), Get = Inr []\<rparr>\<rparr>"
  show "leaderTurn ?W1 [1] 42 exampleState =
     (NextTick exampleState,
      [EvContains [1],
       EvLog LvlError
         ''failed to check if my account is among active staked sequencers; cannot continue''])"
    using leader_check_order [of ?W1 "[1]" 42 exampleState]
    by (simp add: exampleWorker_def)
  show "leaderTurn ?W2 [1] 42 exampleState =
     (NextTick exampleState,
      [EvContains [1],
       EvLog LvlError ''my account is not among active staked sequencers; cannot continue''])"
    using leader_check_order [of ?W2 "[1]" 42 exampleState]
    by (simp add: exampleWorker_def)
  show "leaderTurn ?W3 [1] 42 exampleState =
     (Panicked 0 ''no staked sequencers'', [EvContains [1], EvGet])"
    using leader_check_order [of ?W3 "[1]" 42 exampleState]
    by (simp add: exampleWorker_def exampleState_def)
  show "leaderTurn
     (exampleWorker\<lparr>activeSequencersQuerier :=
        \<lparr>Contains = (\<lambda>a. Inr True), Get = Inl (OtherError ''registry unavailable'')\<rparr>\<rparr>)
     [1] 42 exampleState =
     (NextTick exampleState,
      [EvContains [1], EvGet, EvLog LvlError ''querying staked sequencers failed; quitting''])"
    using leader_check_order [of "exampleWorker\<lparr>activeSequencersQuerier :=
        \<lparr>Contains = (\<lambda>a. Inr True), Get = Inl (OtherError ''registry unavailable'')\<rparr>\<rparr>"
        "[1]" 42 exampleState]
    by (simp add: exampleWorker_def)
  show "leaderTurn (exampleWorker\<lparr>nodeAddr := [2]\<rparr>) [2] 42 exampleState =
     (NextTick exampleState,
      [EvContains [2], EvGet, EvLog LvlInfo ''it's not my turn; skippin' a round''])"
    using leader_check_order [of "exampleWorker\<lparr>nodeAddr := [2]\<rparr>" "[2]" 42 exampleState]
    by (simp add: exampleWorker_def)
  show "\<exists>post. snd (leaderTurn exampleWorker [1] 42 exampleState) =
        [EvContains [1], EvGet, EvHeader, EvLog LvlInfo ''it's my turn; producing a block'']
        @ snd (writeBlock exampleWorker [] [1] 42 genesis) @ post"
    using leader_check_order [of exampleWorker "[1]" 42 exampleState]
    by (simp add: exampleWorker_def exampleState_def)
qed

section \<open>Extraction and the fraud resolver\<close>

text \<open>
  Claim C5 as stated fails: when extraction yields the empty sequence and the NotFound
  condition, the tick emits a log line at error severity.
\<close>

theorem not_found_is_logged_counterexample:
  "FromAvail (pkg exampleWorker) exampleBlock = ([], Some ErrNoExtrinsicFound)
   \<and> EvLog LvlError ''cannot extract Edge block from Avail block''
       \<in> set (snd (tick exampleWorker [1] 42 exampleState exampleBlock))"
  by (simp add: tick_def Let_def case_prod_beta exampleWorker_def)

text \<open>
  Claim C5, amended. When extraction on a DA block yields an empty block sequence together
  with the NotFound condition, the tick loop emits one log line at error severity
  ("cannot extract Edge block from Avail block") and then proceeds through the rest of
  the tick, starting with the fraud resolver, exactly as it does for an empty extraction.
\<close>

theorem not_found_proceeds_with_tick:
  assumes "FromAvail (pkg sw) blk = ([], Some ErrNoExtrinsicFound)"
  shows "fst (tick sw account key w blk) =
           fst (restOfTick sw account key (w\<lparr>DATick := uint (avail_Number blk)\<rparr>) [])
       \<and> snd (tick sw account key w blk) =
           [EvStore (uint (avail_Number blk)), EvFromAvail blk,
            EvLog LvlError ''cannot extract Edge block from Avail block'']
           @ snd (restOfTick sw account key (w\<lparr>DATick := uint (avail_Number blk)\<rparr>) [])
       \<and> (\<exists>rest. snd (tick sw account key w blk) =
           [EvStore (uint (avail_Number blk)), EvFromAvail blk,
            EvLog LvlError ''cannot extract Edge block from Avail block'',
            EvCheckAndSetFraudBlock [],
            EvCheckAndSlash (CheckAndSlash (fraudResolver sw) [])] @ rest)"
  using assms
  by (simp add: tick_def restOfTick_def Let_def case_prod_beta split: option.splits)

theorem not_found_proceeds_with_tick_witness:
  "FromAvail (pkg exampleWorker) exampleBlock = ([], Some ErrNoExtrinsicFound)
   \<and> fst (tick exampleWorker [1] 42 exampleState exampleBlock) =
       fst (restOfTick exampleWorker [1] 42 (exampleState\<lparr>DATick := 7\<rparr>) [])
   \<and> (\<exists>rest. snd (tick exampleWorker [1] 42 exampleState exampleBlock) =
       [EvStore 7, EvFromAvail exampleBlock,
        EvLog LvlError ''cannot extract Edge block from Avail block'',
        EvCheckAndSetFraudBlock [], EvCheckAndSlash None] @ rest)"
proof -
  have nf: "FromAvail (pkg exampleWorker) exampleBlock = ([], Some ErrNoExtrinsicFound)"
    by (simp add: exampleWorker_def)
  have n: "uint (avail_Number exampleBlock) = 7"
    by (simp add: exampleBlock_def)
  have cs: "CheckAndSlash (fraudResolver exampleWorker) [] = None"
    by (simp add: exampleWorker_def)
  from not_found_proceeds_with_tick [OF nf, of "[1]" 42 exampleState, unfolded n cs] nf
  show ?thesis by blast
qed


text \<open>
  Claim C6 as stated fails in its last part: a tick whose extraction returns no block and
  an error other than NotFound also skips the staked-status check, the leader
  determination and block production, although \<^verbatim>\<open>CheckAndSlash\<close> returns no error there
  (it is not even called).
\<close>

theorem decode_failure_skips_tick_counterexample:
  "CheckAndSlash (fraudResolver
     (exampleWorker\<lparr>pkg := (pkg exampleWorker)
        \<lparr>FromAvail := (\<lambda>b. ([], Some (OtherError ''malformed payload'')))\<rparr>\<rparr>)) [] = None
   \<and> tick
     (exampleWorker\<lparr>pkg := (pkg exampleWorker)
        \<lparr>FromAvail := (\<lambda>b. ([], Some (OtherError ''malformed payload'')))\<rparr>\<rparr>)
     [1] 42 exampleState exampleBlock =
     (NextTick \<lparr>DATick = 7, poolState = []\<rparr>,
      [EvStore 7, EvFromAvail exampleBlock,
       EvLog LvlError ''cannot extract Edge block from Avail block''])"
  by (simp add: model_defs example_defs)

text \<open>
  Claim C6, amended. Whenever \<^verbatim>\<open>CheckAndSlash\<close> returns an error during a tick, the worker
  skips the remainder of that tick (the staked-status check, leader determination and
  block production are not performed) and goes on to the next DA block. The only other
  step that skips all of these is an extraction that returns no block together with an
  error other than NotFound: that tick ends after the log line, so it also skips the
  writes of extracted blocks and the fraud resolver. In every other tick the staked-status
  check, and with it the leader logic, runs right after \<^verbatim>\<open>CheckAndSlash\<close>.
\<close>

theorem tick_short_circuits:
  assumes "FromAvail (pkg sw) blk = (edgeBlks, err)"
  shows "(\<forall>e. \<not> (edgeBlks = [] \<and> err \<noteq> None \<and> err \<noteq> Some ErrNoExtrinsicFound) \<and>
              CheckAndSlash (fraudResolver sw) edgeBlks = Some e \<longrightarrow>
            tick sw account key w blk =
            (NextTick (w\<lparr>DATick := uint (avail_Number blk)\<rparr>),
             [EvStore (uint (avail_Number blk)), EvFromAvail blk]
             @ (if edgeBlks = [] \<and> err \<noteq> None
                then [EvLog LvlError ''cannot extract Edge block from Avail block''] else [])
             @ map (\<lambda>blockk. EvWriteBlock blockk (WriteBlock (blockchain sw) blockk)) edgeBlks
             @ [EvCheckAndSetFraudBlock edgeBlks, EvCheckAndSlash (Some e)]))
       \<and> (\<not> list_ex isContains (snd (tick sw account key w blk)) \<longleftrightarrow>
            (edgeBlks = [] \<and> err \<noteq> None \<and> err \<noteq> Some ErrNoExtrinsicFound)
            \<or> CheckAndSlash (fraudResolver sw) edgeBlks \<noteq> None)
       \<and> (edgeBlks = [] \<and> err \<noteq> None \<and> err \<noteq> Some ErrNoExtrinsicFound \<longrightarrow>
            tick sw account key w blk =
            (NextTick (w\<lparr>DATick := uint (avail_Number blk)\<rparr>),
             [EvStore (uint (avail_Number blk)), EvFromAvail blk,
              EvLog LvlError ''cannot extract Edge block from Avail block'']))
       \<and> (\<not> (edgeBlks = [] \<and> err \<noteq> None \<and> err \<noteq> Some ErrNoExtrinsicFound) \<and>
              CheckAndSlash (fraudResolver sw) edgeBlks = None \<longrightarrow>
            tick sw account key w blk =
            (fst (leaderTurn sw account key (w\<lparr>DATick := uint (avail_Number blk)\<rparr>)),
             [EvStore (uint (avail_Number blk)), EvFromAvail blk]
             @ (if edgeBlks = [] \<and> err \<noteq> None
                then [EvLog LvlError ''cannot extract Edge block from Avail block''] else [])
             @ map (\<lambda>blockk. EvWriteBlock blockk (WriteBlock (blockchain sw) blockk)) edgeBlks
             @ [EvCheckAndSetFraudBlock edgeBlks, EvCheckAndSlash None]
             @ snd (leaderTurn sw account key (w\<lparr>DATick := uint (avail_Number blk)\<rparr>))))"
proof -
  let ?w1 = "w\<lparr>DATick := uint (avail_Number blk)\<rparr>"
  have asks: "list_ex isContains (snd (leaderTurn sw account key ?w1))"
    by (rule leaderTurn_asks_first)
  have slash: "\<forall>e. \<not> (edgeBlks = [] \<and> err \<noteq> None \<and> err \<noteq> Some ErrNoExtrinsicFound) \<and>
              CheckAndSlash (fraudResolver sw) edgeBlks = Some e \<longrightarrow>
            tick sw account key w blk =
            (NextTick ?w1,
             [EvStore (uint (avail_Number blk)), EvFromAvail blk]
             @ (if edgeBlks = [] \<and> err \<noteq> None
                then [EvLog LvlError ''cannot extract Edge block from Avail block''] else [])
             @ map (\<lambda>blockk. EvWriteBlock blockk (WriteBlock (blockchain sw) blockk)) edgeBlks
             @ [EvCheckAndSetFraudBlock edgeBlks, EvCheckAndSlash (Some e)])"
    using assms by (auto simp: tick_def restOfTick_def Let_def)
  have skipped: "\<not> list_ex isContains (snd (tick sw account key w blk)) \<longleftrightarrow>
            (edgeBlks = [] \<and> err \<noteq> None \<and> err \<noteq> Some ErrNoExtrinsicFound)
            \<or> CheckAndSlash (fraudResolver sw) edgeBlks \<noteq> None"
    using assms asks writes_not_contains [of "WriteBlock (blockchain sw)" edgeBlks]
    by (auto simp: tick_def restOfTick_def Let_def case_prod_beta split: option.splits)
  have undecoded: "edgeBlks = [] \<and> err \<noteq> None \<and> err \<noteq> Some ErrNoExtrinsicFound \<longrightarrow>
            tick sw account key w blk =
            (NextTick ?w1,
             [EvStore (uint (avail_Number blk)), EvFromAvail blk,
              EvLog LvlError ''cannot extract Edge block from Avail block''])"
    using assms by (auto simp: tick_def Let_def)
  have leader: "\<not> (edgeBlks = [] \<and> err \<noteq> None \<and> err \<noteq> Some ErrNoExtrinsicFound) \<and>
              CheckAndSlash (fraudResolver sw) edgeBlks = None \<longrightarrow>
            tick sw account key w blk =
            (fst (leaderTurn sw account key ?w1),
             [EvStore (uint (avail_Number blk)), EvFromAvail blk]
             @ (if edgeBlks = [] \<and> err \<noteq> None
                then [EvLog LvlError ''cannot extract Edge block from Avail block''] else [])
             @ map (\<lambda>blockk. EvWriteBlock blockk (WriteBlock (blockchain sw) blockk)) edgeBlks
             @ [EvCheckAndSetFraudBlock edgeBlks, EvCheckAndSlash None]
             @ snd (leaderTurn sw account key ?w1))"
    using assms by (auto simp: tick_def restOfTick_def Let_def case_prod_beta)
  show ?thesis
    by (rule conjI [OF slash conjI [OF skipped conjI [OF undecoded leader]]])
qed

text \<open>
  Claim C9. On every tick that gets past extraction, each extracted block is written to
  the chain storage with \<^verbatim>\<open>WriteBlock\<close>, whatever error each write returns, before
  \<^verbatim>\<open>CheckAndSetFraudBlock\<close> and \<^verbatim>\<open>CheckAndSlash\<close> run; this includes a non-empty list of
  blocks extracted alongside a decode error other than NotFound.
\<close>

theorem extracted_blocks_written_before_fraud_check:
  assumes "FromAvail (pkg sw) blk = (edgeBlks, err)"
    and "edgeBlks \<noteq> [] \<or> err = None \<or> err = Some ErrNoExtrinsicFound"
  shows "\<exists>rest. snd (tick sw account key w blk) =
           [EvStore (uint (avail_Number blk)), EvFromAvail blk]
           @ (if edgeBlks = [] \<and> err \<noteq> None
              then [EvLog LvlError ''cannot extract Edge block from Avail block''] else [])
           @ map (\<lambda>blockk. EvWriteBlock blockk (WriteBlock (blockchain sw) blockk)) edgeBlks
           @ [EvCheckAndSetFraudBlock edgeBlks,
              EvCheckAndSlash (CheckAndSlash (fraudResolver sw) edgeBlks)]
           @ rest"
  using assms
  by (auto simp: tick_def restOfTick_def Let_def case_prod_beta split: option.splits)


theorem tick_short_circuits_witness:
  "FromAvail (pkg (exampleWorker\<lparr>fraudResolver :=
       \<lparr>CheckAndSlash = (\<lambda>blks. Some (OtherError ''slashing failed''))\<rparr>\<rparr>)) exampleBlock =
     ([], Some ErrNoExtrinsicFound)
   \<and> tick (exampleWorker\<lparr>fraudResolver :=
       \<lparr>CheckAndSlash = (\<lambda>blks. Some (OtherError ''slashing failed''))\<rparr>\<rparr>)
       [1] 42 exampleState exampleBlock =
     (NextTick (exampleState\<lparr>DATick := 7\<rparr>),
      [EvStore 7, EvFromAvail exampleBlock,
       EvLog LvlError ''cannot extract Edge block from Avail block'',
       EvCheckAndSetFraudBlock [], EvCheckAndSlash (Some (OtherError ''slashing failed''))])
   \<and> \<not> list_ex isContains (snd (tick (exampleWorker\<lparr>fraudResolver :=
       \<lparr>CheckAndSlash = (\<lambda>blks. Some (OtherError ''slashing failed''))\<rparr>\<rparr>)
       [1] 42 exampleState exampleBlock))
   \<and> list_ex isContains (snd (tick exampleWorker [1] 42 exampleState exampleBlock))
   \<and> FromAvail (pkg (exampleWorker\<lparr>pkg := (pkg exampleWorker)
        \<lparr>FromAvail := (\<lambda>b. ([], Some (OtherError ''malformed payload'')))\<rparr>\<rparr>)) exampleBlock =
     ([], Some (OtherError ''malformed payload''))
   \<and> tick (exampleWorker\<lparr>pkg := (pkg exampleWorker)
        \<lparr>FromAvail := (\<lambda>b. ([], Some (OtherError ''malformed payload'')))\<rparr>\<rparr>)
       [1] 42 exampleState exampleBlock =
     (NextTick (exampleState\<lparr>DATick := 7\<rparr>),
      [EvStore 7, EvFromAvail exampleBlock,
       EvLog LvlError ''cannot extract Edge block from Avail block''])
   \<and> tick exampleWorker [1] 42 exampleState exampleBlock =
     (fst (leaderTurn exampleWorker [1] 42 (exampleState\<lparr>DATick := 7\<rparr>)),
      [EvStore 7, EvFromAvail exampleBlock,
       EvLog LvlError ''cannot extract Edge block from Avail block'',
       EvCheckAndSetFraudBlock [], EvCheckAndSlash None]
      @ snd (leaderTurn exampleWorker [1] 42 (exampleState\<lparr>DATick := 7\<rparr>)))"
proof -
  let ?W = "exampleWorker\<lparr>fraudResolver :=
       \<lparr>CheckAndSlash = (\<lambda>blks. Some (OtherError ''slashing failed''))\<rparr>\<rparr>"
  let ?D = "exampleWorker\<lparr>pkg := (pkg exampleWorker)
        \<lparr>FromAvail := (\<lambda>b. ([], Some (OtherError ''malformed payload'')))\<rparr>\<rparr>"
  have fa: "FromAvail (pkg ?W) exampleBlock = ([], Some ErrNoExtrinsicFound)"
    and fa': "FromAvail (pkg exampleWorker) exampleBlock = ([], Some ErrNoExtrinsicFound)"
    and fd: "FromAvail (pkg ?D) exampleBlock = ([], Some (OtherError ''malformed payload''))"
    by (simp_all add: exampleWorker_def)
  have cs: "CheckAndSlash (fraudResolver ?W) [] = Some (OtherError ''slashing failed'')"
    and cs': "CheckAndSlash (fraudResolver exampleWorker) [] = None"
    by (simp_all add: exampleWorker_def)
  have n: "uint (avail_Number exampleBlock) = 7"
    by (simp add: exampleBlock_def)
  note slashing = tick_short_circuits [OF fa, of "[1]" 42 exampleState]
  note plain = tick_short_circuits [OF fa', of "[1]" 42 exampleState]
  note undecoded = tick_short_circuits [OF fd, of "[1]" 42 exampleState]
  have a: "tick ?W [1] 42 exampleState exampleBlock =
     (NextTick (exampleState\<lparr>DATick := 7\<rparr>),
      [EvStore 7, EvFromAvail exampleBlock,
       EvLog LvlError ''cannot extract Edge block from Avail block'',
       EvCheckAndSetFraudBlock [], EvCheckAndSlash (Some (OtherError ''slashing failed''))])"
    using slashing [THEN conjunct1] cs n by simp
  have b: "\<not> list_ex isContains (snd (tick ?W [1] 42 exampleState exampleBlock))"
    using slashing [THEN conjunct2, THEN conjunct1] cs by simp
  have c: "list_ex isContains (snd (tick exampleWorker [1] 42 exampleState exampleBlock))"
    using plain [THEN conjunct2, THEN conjunct1] cs' by simp
  have d: "tick ?D [1] 42 exampleState exampleBlock =
     (NextTick (exampleState\<lparr>DATick := 7\<rparr>),
      [EvStore 7, EvFromAvail exampleBlock,
       EvLog LvlError ''cannot extract Edge block from Avail block''])"
    using undecoded [THEN conjunct2, THEN conjunct2, THEN conjunct1] n by simp
  have e: "tick exampleWorker [1] 42 exampleState exampleBlock =
     (fst (leaderTurn exampleWorker [1] 42 (exampleState\<lparr>DATick := 7\<rparr>)),
      [EvStore 7, EvFromAvail exampleBlock,
       EvLog LvlError ''cannot extract Edge block from Avail block'',
       EvCheckAndSetFraudBlock [], EvCheckAndSlash None]
      @ snd (leaderTurn exampleWorker [1] 42 (exampleState\<lparr>DATick := 7\<rparr>)))"
    using plain [THEN conjunct2, THEN conjunct2, THEN conjunct2] cs' n by simp
  show ?thesis
    by (intro conjI) (rule fa a b c fd d e)+
qed

theorem extracted_blocks_written_before_fraud_check_witness:
  "FromAvail (pkg (exampleWorker
       \<lparr>blockchain := (blockchain exampleWorker)
          \<lparr>WriteBlock := (\<lambda>b. Some (OtherError ''block already known''))\<rparr>,
        pkg := (pkg exampleWorker)
          \<lparr>FromAvail := (\<lambda>b. ([settledBlock 5, settledBlock 6],
                                Some (OtherError ''malformed payload'')))\<rparr>\<rparr>)) exampleBlock =
     ([settledBlock 5, settledBlock 6], Some (OtherError ''malformed payload''))
   \<and> (\<exists>rest. snd (tick (exampleWorker
       \<lparr>blockchain := (blockchain exampleWorker)
          \<lparr>WriteBlock := (\<lambda>b. Some (OtherError ''block already known''))\<rparr>,
        pkg := (pkg exampleWorker)
          \<lparr>FromAvail := (\<lambda>b. ([settledBlock 5, settledBlock 6],
                                Some (OtherError ''malformed payload'')))\<rparr>\<rparr>)
       [1] 42 exampleState exampleBlock) =
     [EvStore 7, EvFromAvail exampleBlock,
      EvWriteBlock (settledBlock 5) (Some (OtherError ''block already known'')),
      EvWriteBlock (settledBlock 6) (Some (OtherError ''block already known'')),
      EvCheckAndSetFraudBlock [settledBlock 5, settledBlock 6],
      EvCheckAndSlash None] @ rest)"
proof -
  let ?W = "exampleWorker
       \<lparr>blockchain := (blockchain exampleWorker)
          \<lparr>WriteBlock := (\<lambda>b. Some (OtherError ''block already known''))\<rparr>,
        pkg := (pkg exampleWorker)
          \<lparr>FromAvail := (\<lambda>b. ([settledBlock 5, settledBlock 6],
                                Some (OtherError ''malformed payload'')))\<rparr>\<rparr>"
  have fa: "FromAvail (pkg ?W) exampleBlock =
      ([settledBlock 5, settledBlock 6], Some (OtherError ''malformed payload''))"
    by simp
  have ne: "[settledBlock 5, settledBlock 6] \<noteq> [] \<or> Some (OtherError ''malformed payload'') = None
      \<or> Some (OtherError ''malformed payload'') = Some ErrNoExtrinsicFound"
    by simp
  have wb: "WriteBlock (blockchain ?W) = (\<lambda>b. Some (OtherError ''block already known''))"
    and cs: "CheckAndSlash (fraudResolver ?W) = (\<lambda>blks. None)"
    by (simp_all add: exampleWorker_def)
  have n: "uint (avail_Number exampleBlock) = 7"
    by (simp add: exampleBlock_def)
  from extracted_blocks_written_before_fraud_check [OF fa ne, of "[1]" 42 exampleState] fa wb cs n
  show ?thesis by simp
qed


section \<open>The timestamp of a new header\<close>

lemma second_pos: "0 < second"
  by (simp add: second_def)

lemma int64_small: "x < 2 ^ 63 \<Longrightarrow> int64 x = int x"
proof -
  assume a: "x < 2 ^ 63"
  then have "x < 2 ^ 64" by simp
  then have "x mod 2 ^ 64 = x" by simp
  moreover from a have "int x < 2 ^ 63"
    by (metis of_nat_less_iff of_nat_numeral of_nat_power)
  ultimately show ?thesis by (simp add: int64_def Let_def)
qed

lemma uint64_small: "0 \<le> i \<Longrightarrow> i < 2 ^ 64 \<Longrightarrow> int (uint64 i) = i"
  by (simp add: uint64_def)

lemma wrap64_small: "- (2 ^ 63) \<le> i \<Longrightarrow> i < 2 ^ 63 \<Longrightarrow> wrap64 i = i"
proof -
  assume a: "- (2 ^ 63) \<le> i" and b: "i < 2 ^ 63"
  have "0 \<le> i + 2 ^ 63" using a by simp
  moreover have "i + 2 ^ 63 < 2 ^ 64" using b by simp
  ultimately have "(i + 2 ^ 63) mod 2 ^ 64 = i + 2 ^ 63"
    by (rule mod_pos_pos_trivial)
  then show ?thesis by (simp only: wrap64_def add_diff_cancel)
qed

lemma truncDiv_nonneg: "0 \<le> d \<Longrightarrow> truncDiv d second = d div second"
  by (cases "d = 0") (simp_all add: truncDiv_def second_def)

lemma truncRem_nonneg: "0 \<le> d \<Longrightarrow> truncRem d second = d mod second"
  by (simp add: truncRem_def truncDiv_nonneg minus_mult_div_eq_mod)

lemma less_by_div_mod:
  assumes "0 < (s::int)"
  shows "(a div s < b div s \<or> (a div s = b div s \<and> a mod s < b mod s)) \<longleftrightarrow> a < b"
proof -
  have a: "a = s * (a div s) + a mod s" and b: "b = s * (b div s) + b mod s" by simp_all
  have ra: "0 \<le> a mod s" "a mod s < s" and rb: "0 \<le> b mod s" "b mod s < s"
    using assms by simp_all
  show ?thesis
  proof (cases "a div s < b div s")
    case True
    then have "a div s + 1 \<le> b div s" by simp
    then have "s * (a div s + 1) \<le> s * (b div s)"
      using assms by (simp add: mult_left_mono)
    then have "s * (a div s) + s \<le> s * (b div s)" by (simp add: algebra_simps)
    with a b ra rb have "a < b" by linarith
    with True show ?thesis by simp
  next
    case False
    show ?thesis
    proof (cases "a div s = b div s")
      case True
      with a b show ?thesis by (metis add_less_cancel_left less_irrefl)
    next
      case neq: False
      with False have "b div s + 1 \<le> a div s" by simp
      then have "s * (b div s + 1) \<le> s * (a div s)"
        using assms by (simp add: mult_left_mono)
      then have "s * (b div s) + s \<le> s * (a div s)" by (simp add: algebra_simps)
      with a b ra rb have "b < a" by linarith
      with False neq show ?thesis by simp
    qed
  qed
qed



lemma div_mult_add_second: "(int p * second + d) div second = int p + d div second"
  using second_pos by (simp add: mult.commute)

lemma mod_mult_add_second: "(int p * second + d) mod second = d mod second"
  by (simp add: mult.commute)

lemma headerTimestamp_exact:
  assumes r1: "int p + d div second < 2 ^ 63 - unixToInternal"
    and r2: "0 \<le> d"
    and r3: "0 \<le> now1"
    and r4: "now1 \<le> now2"
    and r5: "now2 div second < 2 ^ 63 - unixToInternal"
  shows "int (headerTimestamp d p now1 now2) =
           (if int p * second + d < now1 then now2 else int p * second + d) div second"
proof -
  let ?P = "int p" and ?q = "d div second" and ?U = unixToInternal
  have U: "0 \<le> ?U" "?U < 2 ^ 63" by (simp_all add: unixToInternal_def)
  have q: "0 \<le> ?q" using r2 second_pos by (simp add: pos_imp_zdiv_nonneg_iff)
  have P: "0 \<le> ?P" by simp
  have Pq: "?P + ?q + ?U < 2 ^ 63" using r1 by simp
  have "?P < 2 ^ 63" using Pq q U by linarith
  then have p: "p < 2 ^ 63"
    by (metis of_nat_less_iff of_nat_numeral of_nat_power)
  have n1: "0 \<le> now1 div second" using r3 second_pos by (simp add: pos_imp_zdiv_nonneg_iff)
  have n12: "now1 div second \<le> now2 div second" using r4 second_pos by (simp add: zdiv_mono1)
  have n2: "0 \<le> now2 div second" using n1 n12 by linarith
  have n2U: "now2 div second + ?U < 2 ^ 63" using r5 by simp
  have parent: "timeUnix (int64 p) = \<lparr>t_sec = ?P + ?U, t_nsec = 0\<rparr>"
  proof -
    have "wrap64 (?P + ?U) = ?P + ?U"
      using P q U Pq by (intro wrap64_small) linarith+
    then show ?thesis by (simp add: timeUnix_def int64_small [OF p])
  qed
  have rem: "0 \<le> d mod second" "d mod second < second"
    using second_pos by simp_all
  have sum: "wrap64 (?P + ?U + ?q) = ?P + ?U + ?q"
    using P q U Pq by (intro wrap64_small) linarith+
  have add_sec: "addSec (?P + ?U) ?q = ?P + ?U + ?q"
    using q by (simp add: addSec_def Let_def sum)
  have hdr: "timeAdd (timeUnix (int64 p)) d = \<lparr>t_sec = ?P + ?U + ?q, t_nsec = d mod second\<rparr>"
    using rem by (simp add: parent timeAdd_def Let_def truncDiv_nonneg [OF r2]
        truncRem_nonneg [OF r2] add_sec)
  have now1: "timeNow now1 = \<lparr>t_sec = now1 div second + ?U, t_nsec = now1 mod second\<rparr>"
  proof -
    have "wrap64 (now1 div second + ?U) = now1 div second + ?U"
      using n1 n12 n2U U by (intro wrap64_small) linarith+
    then show ?thesis by (simp add: timeNow_def)
  qed
  have now2: "timeUnixSec (timeNow now2) = now2 div second"
  proof -
    have "wrap64 (now2 div second + ?U) = now2 div second + ?U"
      using n2 n2U U by (intro wrap64_small) linarith+
    moreover have "wrap64 (now2 div second) = now2 div second"
      using n2 n2U U by (intro wrap64_small) linarith+
    ultimately show ?thesis by (simp add: timeNow_def timeUnixSec_def)
  qed
  have hdr_unix: "timeUnixSec \<lparr>t_sec = ?P + ?U + ?q, t_nsec = d mod second\<rparr> = ?P + ?q"
  proof -
    have "wrap64 (?P + ?q) = ?P + ?q"
      using P q U Pq by (intro wrap64_small) linarith+
    then show ?thesis by (simp add: timeUnixSec_def)
  qed
  have before: "timeBefore (timeAdd (timeUnix (int64 p)) d) (timeNow now1) \<longleftrightarrow>
      ?P * second + d < now1"
  proof -
    have "timeBefore (timeAdd (timeUnix (int64 p)) d) (timeNow now1) \<longleftrightarrow>
        (?P + ?q < now1 div second \<or> (?P + ?q = now1 div second \<and> d mod second < now1 mod second))"
      by (auto simp: hdr now1 timeBefore_def)
    also have "\<dots> \<longleftrightarrow>
        ((?P * second + d) div second < now1 div second \<or>
         ((?P * second + d) div second = now1 div second \<and>
          (?P * second + d) mod second < now1 mod second))"
      by (simp only: div_mult_add_second mod_mult_add_second)
    also have "\<dots> \<longleftrightarrow> ?P * second + d < now1"
      using second_pos by (rule less_by_div_mod)
    finally show ?thesis .
  qed
  show ?thesis
  proof (cases "?P * second + d < now1")
    case True
    then have "headerTimestamp d p now1 now2 = uint64 (now2 div second)"
      using before by (simp add: headerTimestamp_def Let_def now2)
    moreover have "now2 div second < 2 ^ 64" using n2U U by simp
    ultimately show ?thesis using True n2 by (simp add: uint64_small)
  next
    case False
    then have "headerTimestamp d p now1 now2 = uint64 (?P + ?q)"
      using before by (simp add: headerTimestamp_def Let_def hdr hdr_unix)
    moreover have "?P + ?q < 2 ^ 64" using Pq U by simp
    moreover have "0 \<le> ?P + ?q" using P q by linarith
    ultimately show ?thesis using False by (simp add: uint64_small div_mult_add_second)
  qed
qed


text \<open>
  Claim C7 as stated fails. With a minimum block interval of half a second (positive), a
  parent timestamp of 100 and the clock at 100.2 seconds, the new header's timestamp is
  100, the parent's, and \<^verbatim>\<open>writeBlock\<close> publishes and writes a block with that
  timestamp. With an interval of two seconds, a parent timestamp of \<open>2 ^ 63 - 100\<close> and
  the clock at 200 seconds, the seconds of \<^verbatim>\<open>time.Unix\<close> wrap around and the new
  timestamp is 200, far below the parent's; with a parent timestamp of
  \<open>2 ^ 63 - 1 - 62135596800\<close> the addition of the interval saturates and the new timestamp
  is the parent's.
\<close>

theorem header_timestamp_sub_second_counterexample:
  "0 < second div 2
   \<and> Timestamp genesis = 100
   \<and> headerTimestamp (second div 2) 100 (100 * second + second div 5) (100 * second + second div 5)
       = 100
   \<and> writeBlock
       (exampleWorker\<lparr>blockTime := second div 2,
          pkg := (pkg exampleWorker)\<lparr>Now := (\<lambda>k. 100 * second + second div 5)\<rparr>\<rparr>)
       [] [1] 42 genesis =
     (Returned None [],
      [EvCalculateGasLimit 1 None, EvAssignExtraValidators None, EvBeginTxn None, EvPrepare,
       EvPeek None, EvCommit, EvWriteSeal None, EvLog LvlInfo ''sending block to avail'',
       EvSendAndWaitForStatus
         \<lparr>Header = \<lparr>ParentHash = 1000, Number = 1, Miner = [1], Nonce = 0, GasLimit = 100,
                     Timestamp = 100, StateRoot = 0, GasUsed = 0, ExtraData = [1],
                     Hash = 1001\<rparr>,
          Transactions = []\<rparr> None,
       EvLog LvlInfo ''sent block to avail'',
       EvLog LvlInfo ''writing block to blockchain'',
       EvWriteBlock
         \<lparr>Header = \<lparr>ParentHash = 1000, Number = 1, Miner = [1], Nonce = 0, GasLimit = 100,
                     Timestamp = 100, StateRoot = 0, GasUsed = 0, ExtraData = [1],
                     Hash = 1001\<rparr>,
          Transactions = []\<rparr> None,
       EvLog LvlInfo ''Successfully wrote block to blockchain'',
       EvResetWithHeaders
         \<lparr>ParentHash = 1000, Number = 1, Miner = [1], Nonce = 0, GasLimit = 100,
          Timestamp = 100, StateRoot = 0, GasUsed = 0, ExtraData = [1], Hash = 1001\<rparr>])
   \<and> 0 < 2 * second
   \<and> headerTimestamp (2 * second) (2 ^ 63 - 100) (200 * second) (200 * second) = 200
   \<and> headerTimestamp (2 * second) (2 ^ 63 - 1 - 62135596800) (200 * second) (200 * second)
       = 2 ^ 63 - 1 - 62135596800"
  by (simp add: model_defs example_defs selectLoop.simps)

text \<open>
  Claim C7, amended. For a non-negative minimum block interval, clock readings that are
  not negative and do not run backwards between the comparison and the assignment, and
  times that the \<^verbatim>\<open>time\<close> package holds without overflow of its seconds: the new
  header's timestamp is, in whole seconds, the second clock reading when parent timestamp
  + interval lies before the first reading, and parent timestamp + interval otherwise;
  with one reading for both this is max(current time, parent timestamp + interval)
  rounded down to whole seconds. Hence the new timestamp exceeds the parent's by at least
  the whole seconds of the interval: it is never smaller than the parent's, and it is
  strictly greater whenever the minimum block interval is at least one second.
\<close>

theorem header_timestamp_is_max:
  assumes "int parentTimestamp + minInterval div second < 2 ^ 63 - unixToInternal"
    and "0 \<le> minInterval"
    and "0 \<le> now1"
    and "now1 \<le> now2"
    and "now2 div second < 2 ^ 63 - unixToInternal"
  shows "int (headerTimestamp minInterval parentTimestamp now1 now2) =
           (if int parentTimestamp * second + minInterval < now1 then now2
            else int parentTimestamp * second + minInterval) div second
       \<and> (now1 = now2 \<longrightarrow>
            int (headerTimestamp minInterval parentTimestamp now1 now2) =
            max now2 (int parentTimestamp * second + minInterval) div second)
       \<and> int parentTimestamp + minInterval div second
            \<le> int (headerTimestamp minInterval parentTimestamp now1 now2)
       \<and> parentTimestamp \<le> headerTimestamp minInterval parentTimestamp now1 now2
       \<and> (second \<le> minInterval \<longrightarrow>
            parentTimestamp < headerTimestamp minInterval parentTimestamp now1 now2)"
proof -
  let ?base = "int parentTimestamp * second + minInterval"
  let ?h = "if ?base < now1 then now2 else ?base"
  have val: "int (headerTimestamp minInterval parentTimestamp now1 now2) = ?h div second"
    using assms by (rule headerTimestamp_exact)
  have single: "int (headerTimestamp minInterval parentTimestamp now1 now2) =
      max now2 ?base div second" if "now1 = now2"
    using that val by (simp add: max_def)
  have "?base \<le> ?h" using assms(4) by auto
  then have "?base div second \<le> ?h div second"
    by (rule zdiv_mono1) (rule second_pos)
  then have spacing: "int parentTimestamp + minInterval div second
      \<le> int (headerTimestamp minInterval parentTimestamp now1 now2)"
    by (simp only: val div_mult_add_second)
  have q: "0 \<le> minInterval div second"
    using assms(2) second_pos by (simp add: pos_imp_zdiv_nonneg_iff)
  from spacing q have mono: "parentTimestamp \<le> headerTimestamp minInterval parentTimestamp now1 now2"
    by linarith
  have strict: "parentTimestamp < headerTimestamp minInterval parentTimestamp now1 now2"
    if "second \<le> minInterval"
  proof -
    from that have "second div second \<le> minInterval div second"
      by (rule zdiv_mono1) (rule second_pos)
    then have "1 \<le> minInterval div second" using second_pos by simp
    with spacing show ?thesis by linarith
  qed
  from val single spacing mono strict show ?thesis by blast
qed

theorem header_timestamp_is_max_witness:
  "int 100 + 2 * second div second < 2 ^ 63 - unixToInternal
   \<and> 0 \<le> 2 * second
   \<and> 0 \<le> 101 * second
   \<and> 101 * second div second < 2 ^ 63 - unixToInternal
   \<and> second \<le> 2 * second
   \<and> int (headerTimestamp (2 * second) 100 (101 * second) (101 * second)) =
       max (101 * second) (int 100 * second + 2 * second) div second
   \<and> int 100 + 2 * second div second
       \<le> int (headerTimestamp (2 * second) 100 (101 * second) (101 * second))
   \<and> 100 < headerTimestamp (2 * second) 100 (101 * second) (101 * second)"
proof -
  have r1: "int 100 + 2 * second div second < 2 ^ 63 - unixToInternal"
    and r2: "0 \<le> 2 * second"
    and r3: "0 \<le> 101 * second"
    and r4: "101 * second \<le> 101 * second"
    and r5: "101 * second div second < 2 ^ 63 - unixToInternal"
    and r6: "second \<le> 2 * second"
    by (simp_all add: second_def unixToInternal_def)
  note t = header_timestamp_is_max [OF r1 r2 r3 r4 r5]
  note a = t [THEN conjunct2, THEN conjunct1, rule_format, OF refl]
  note b = t [THEN conjunct2, THEN conjunct2, THEN conjunct1]
  note c = t [THEN conjunct2, THEN conjunct2, THEN conjunct2, THEN conjunct2,
      rule_format, OF r6]
  show ?thesis
    by (intro conjI) (rule r1 r2 r3 r5 r6 a b c)+
qed

section \<open>The clock\<close>

lemma tick_NextTick_DATick:
  assumes "tick sw account key w blk = (NextTick w', evs)"
  shows "DATick w' = uint (avail_Number blk)"
  using tick_recordedTick [of sw account key w blk] assms by simp

lemma runLoop_waiting:
  "runLoop account key w items = (Waiting w', evs) \<Longrightarrow>
     length (blockNumbers items) = length items \<and>
     DATick w' = (if items = [] then DATick w else uint (last (blockNumbers items)))"
proof (induction items arbitrary: w evs)
  case Nil
  then show ?case by simp
next
  case (Cons item rest)
  show ?case
  proof (cases item)
    case (CloseCh unstaked)
    with Cons.prems show ?thesis by (simp split: option.splits)
  next
    case (StreamBlock blk sw)
    obtain r e1 where t: "tick sw account key w blk = (r, e1)"
      by (cases "tick sw account key w blk")
    show ?thesis
    proof (cases r)
      case (NextTick w1)
      obtain r2 e2 where rl: "runLoop account key w1 rest = (r2, e2)"
        by (cases "runLoop account key w1 rest")
      from Cons.prems StreamBlock t NextTick rl have "r2 = Waiting w'" by simp
      with rl have "runLoop account key w1 rest = (Waiting w', e2)" by simp
      from Cons.IH [OF this]
      have len: "length (blockNumbers rest) = length rest"
        and tk: "DATick w' = (if rest = [] then DATick w1 else uint (last (blockNumbers rest)))"
        by simp_all
      from t NextTick have "DATick w1 = uint (avail_Number blk)"
        by (simp add: tick_NextTick_DATick)
      with len tk StreamBlock show ?thesis
        by (cases rest) auto
    next
      case (Panicked n msg)
      with Cons.prems StreamBlock t show ?thesis by simp
    next
      case (Hung n)
      with Cons.prems StreamBlock t show ?thesis by simp
    qed
  qed
qed

lemma strictly_sorted_le_last:
  "sorted_wrt (<) xs \<Longrightarrow> x \<in> set xs \<Longrightarrow> (x :: 'a :: len word) \<le> last xs"
  by (induction xs) (auto simp: less_imp_le)

lemma Max_strictly_sorted:
  assumes "sorted_wrt (<) xs" and "xs \<noteq> []"
  shows "Max (uint ` set xs) = uint (last (xs :: 'a :: len word list))"
proof (rule Max_eqI)
  show "finite (uint ` set xs)" by simp
  show "uint (last xs) \<in> uint ` set xs" using assms(2) by simp
  fix y assume "y \<in> uint ` set xs"
  then obtain x where "x \<in> set xs" "y = uint x" by blast
  with strictly_sorted_le_last [OF assms(1)] show "y \<le> uint (last xs)"
    by (simp add: word_le_def)
qed

text \<open>
  Claim C8. When the worker has consumed a sequence of DA blocks with strictly increasing
  numbers and waits for the next one, the clock value it holds is the number of the last
  block, which is the maximum of the numbers seen so far; and at the end of every tick,
  however the tick ends, the clock value is the number of the block of that tick.
\<close>

theorem recorded_tick_is_latest_block:
  assumes "runLoop account key w items = (Waiting w', evs)"
    and "items \<noteq> []"
    and "sorted_wrt (<) (blockNumbers items)"
  shows "DATick w' = uint (last (blockNumbers items))
       \<and> DATick w' = Max (uint ` set (blockNumbers items))
       \<and> (\<forall>sw w0 blk. recordedTick (fst (tick sw account key w0 blk)) = uint (avail_Number blk))"
proof -
  from runLoop_waiting [OF assms(1)] assms(2)
  have len: "length (blockNumbers items) = length items"
    and last: "DATick w' = uint (last (blockNumbers items))"
    by simp_all
  from len assms(2) have "blockNumbers items \<noteq> []" by auto
  from Max_strictly_sorted [OF assms(3) this] last
  show ?thesis by (simp add: tick_recordedTick)
qed


lemma two_blocks_run:
  "fst (runLoop [2] 42 exampleState
         [StreamBlock \<lparr>avail_Number = 7, avail_Extrinsics = []\<rparr> (exampleWorker\<lparr>nodeAddr := [2]\<rparr>),
          StreamBlock \<lparr>avail_Number = 9, avail_Extrinsics = []\<rparr> (exampleWorker\<lparr>nodeAddr := [2]\<rparr>)])
   = Waiting \<lparr>DATick = 9, poolState = []\<rparr>"
  by (simp add: model_defs example_defs case_prod_beta)

theorem recorded_tick_is_latest_block_witness:
  "fst (runLoop [2] 42 exampleState
         [StreamBlock \<lparr>avail_Number = 7, avail_Extrinsics = []\<rparr> (exampleWorker\<lparr>nodeAddr := [2]\<rparr>),
          StreamBlock \<lparr>avail_Number = 9, avail_Extrinsics = []\<rparr> (exampleWorker\<lparr>nodeAddr := [2]\<rparr>)])
   = Waiting \<lparr>DATick = 9, poolState = []\<rparr>
   \<and> sorted_wrt (<) (blockNumbers
         [StreamBlock \<lparr>avail_Number = 7, avail_Extrinsics = []\<rparr> (exampleWorker\<lparr>nodeAddr := [2]\<rparr>),
          StreamBlock \<lparr>avail_Number = 9, avail_Extrinsics = []\<rparr> (exampleWorker\<lparr>nodeAddr := [2]\<rparr>)])
   \<and> uint (last (blockNumbers
         [StreamBlock \<lparr>avail_Number = 7, avail_Extrinsics = []\<rparr> (exampleWorker\<lparr>nodeAddr := [2]\<rparr>),
          StreamBlock \<lparr>avail_Number = 9, avail_Extrinsics = []\<rparr> (exampleWorker\<lparr>nodeAddr := [2]\<rparr>)]))
       = 9
   \<and> Max (uint ` set (blockNumbers
         [StreamBlock \<lparr>avail_Number = 7, avail_Extrinsics = []\<rparr> (exampleWorker\<lparr>nodeAddr := [2]\<rparr>),
          StreamBlock \<lparr>avail_Number = 9, avail_Extrinsics = []\<rparr> (exampleWorker\<lparr>nodeAddr := [2]\<rparr>)]))
       = 9"
proof -
  let ?items = "[StreamBlock \<lparr>avail_Number = 7, avail_Extrinsics = []\<rparr> (exampleWorker\<lparr>nodeAddr := [2]\<rparr>),
          StreamBlock \<lparr>avail_Number = 9, avail_Extrinsics = []\<rparr> (exampleWorker\<lparr>nodeAddr := [2]\<rparr>)]"
  have run: "runLoop [2] 42 exampleState ?items =
      (Waiting \<lparr>DATick = 9, poolState = []\<rparr>, snd (runLoop [2] 42 exampleState ?items))"
    using two_blocks_run by (simp add: prod_eq_iff)
  have ne: "?items \<noteq> []" by simp
  have sorted: "sorted_wrt (<) (blockNumbers ?items)" by simp
  from recorded_tick_is_latest_block [OF run ne sorted] two_blocks_run sorted
  show ?thesis by simp
qed


end
